theory Spec2Isabelle
  imports Main "HOL-Library.List_Lexorder" "HOL-Library.Multiset"
begin

section \<open>Text: Python strings as lists of Unicode code points\<close>

text \<open>
  A Python \<^verbatim>\<open>str\<close> is a sequence of Unicode code points; it is modelled as a list of
  naturals, so that \<^verbatim>\<open>len\<close>, slicing, \<^verbatim>\<open>in\<close> and the comparison of
  strings (lexicographic on code points, the order of \<^verbatim>\<open>List_Lexorder\<close>) are the
  list operations. \<open>ascii\<close> writes an ASCII literal.
\<close>

type_synonym pystr = "nat list"

definition ascii :: "string \<Rightarrow> pystr" where
  "ascii s = map of_char s"

text \<open>\<^verbatim>\<open>"Non trouv\'e"\<close>, the not-found sentinel of the date fields.\<close>

definition non_trouve :: pystr where
  "non_trouve = ascii ''Non trouv'' @ [233]"

text \<open>\<^verbatim>\<open>str.isspace\<close> of one code point (the whitespace set of CPython, which
  \<^verbatim>\<open>str.strip()\<close> and the pattern \<^verbatim>\<open>\s\<close> share).\<close>

definition isspace :: "nat \<Rightarrow> bool" where
  "isspace c \<longleftrightarrow>
     (9 \<le> c \<and> c \<le> 13) \<or> (28 \<le> c \<and> c \<le> 32) \<or> c = 133 \<or> c = 160 \<or> c = 5760 \<or>
     (8192 \<le> c \<and> c \<le> 8202) \<or> c = 8232 \<or> c = 8233 \<or> c = 8239 \<or> c = 8287 \<or> c = 12288"

definition strip :: "pystr \<Rightarrow> pystr" where
  "strip s = rev (dropWhile isspace (rev (dropWhile isspace s)))"

text \<open>\<^verbatim>\<open>a in b\<close> on strings: \<open>a\<close> occurs in \<open>b\<close> as a contiguous run.\<close>

fun starts_with :: "'a list \<Rightarrow> 'a list \<Rightarrow> bool" where
  "starts_with [] ys = True"
| "starts_with (x # xs) [] = False"
| "starts_with (x # xs) (y # ys) = (x = y \<and> starts_with xs ys)"

fun py_in :: "'a list \<Rightarrow> 'a list \<Rightarrow> bool" where
  "py_in a [] = (a = [])"
| "py_in a (y # ys) = (starts_with a (y # ys) \<or> py_in a ys)"

text \<open>\<^verbatim>\<open>s.split(sep)\<close> for a non-empty separator: the pieces between the
  non-overlapping occurrences of \<open>sep\<close>, found from the left.\<close>

fun split_acc :: "'a list \<Rightarrow> 'a list \<Rightarrow> 'a list \<Rightarrow> 'a list list" where
  "split_acc sep acc [] = [rev acc]"
| "split_acc sep acc (y # ys) =
     (if sep \<noteq> [] \<and> starts_with sep (y # ys)
      then rev acc # split_acc sep [] (drop (length sep) (y # ys))
      else split_acc sep (y # acc) ys)"

definition py_split :: "'a list \<Rightarrow> 'a list \<Rightarrow> 'a list list" where
  "py_split sep s = split_acc sep [] s"

text \<open>\<^verbatim>\<open>s.zfill(2)\<close>: pad with zeros on the left to width two, after a leading sign.\<close>

definition zfill2 :: "pystr \<Rightarrow> pystr" where
  "zfill2 s =
     (if 2 \<le> length s then s
      else if s = [] then ascii ''00''
      else if s = ascii ''+'' \<or> s = ascii ''-'' then s @ ascii ''0''
      else ascii ''0'' @ s)"

section \<open>Ownership reconstruction: the sort of the mutations\<close>

text \<open>
  \<^verbatim>\<open>convertir_date_pour_tri\<close>: a string with a slash is split at the slashes; unpacking
  into three names raises unless there are exactly three parts, and the bare
  \<^verbatim>\<open>except\<close> turns that into \<^verbatim>\<open>"0000-00-00"\<close>. A string without a slash is
  returned as it is.
\<close>

definition convertir_date_pour_tri :: "pystr \<Rightarrow> pystr" where
  "convertir_date_pour_tri date_str =
     (if py_in (ascii ''/'') date_str then
        (case py_split (ascii ''/'') date_str of
           [jour, mois, annee] \<Rightarrow> annee @ ascii ''-'' @ zfill2 mois @ ascii ''-'' @ zfill2 jour
         | _ \<Rightarrow> ascii ''0000-00-00'')
      else date_str)"

text \<open>\<^verbatim>\<open>sorted(xs, key=k, reverse=True)\<close>: CPython reverses the list, sorts it stably
  in ascending order and reverses the result, so equal keys keep their input order.\<close>

definition sorted_reverse :: "('a \<Rightarrow> 'k::linorder) \<Rightarrow> 'a list \<Rightarrow> 'a list" where
  "sorted_reverse k xs = rev (sort_key k (rev xs))"


section \<open>The Unicode tables of the interpreter\<close>

text \<open>
  The character tables of the Python interpreter are not part of the repository. Below
  code point 256 they are written out; from 256 on they are a parameter of the model:
  the simple lower-case and upper-case mappings (used by case-insensitive matching),
  the full upper-case mapping (used by \<^verbatim>\<open>str.upper()\<close>), the value of a decimal
  digit (category Nd, the pattern \<^verbatim>\<open>\d\<close> and \<^verbatim>\<open>int()\<close>) and the further
  characters that \<^verbatim>\<open>str.isdigit()\<close> accepts.
\<close>

record unicode_db =
  db_tolower :: "nat \<Rightarrow> nat"
  db_toupper :: "nat \<Rightarrow> nat"
  db_upper :: "nat \<Rightarrow> nat list"
  db_decimal :: "nat \<Rightarrow> nat option"
  db_digit :: "nat \<Rightarrow> bool"

definition tolower :: "unicode_db \<Rightarrow> nat \<Rightarrow> nat" where
  "tolower U c =
     (if c < 256 then
        (if (65 \<le> c \<and> c \<le> 90) \<or> (192 \<le> c \<and> c \<le> 222 \<and> c \<noteq> 215) then c + 32 else c)
      else db_tolower U c)"

definition toupper :: "unicode_db \<Rightarrow> nat \<Rightarrow> nat" where
  "toupper U c =
     (if c < 256 then
        (if (97 \<le> c \<and> c \<le> 122) \<or> (224 \<le> c \<and> c \<le> 254 \<and> c \<noteq> 247) then c - 32
         else if c = 181 then 924 else if c = 255 then 376 else c)
      else db_toupper U c)"

text \<open>\<^verbatim>\<open>str.upper()\<close>: the full mapping, one character at a time (the sharp s
  becomes two letters).\<close>

definition upper_char :: "unicode_db \<Rightarrow> nat \<Rightarrow> nat list" where
  "upper_char U c =
     (if c < 256 then (if c = 223 then [83, 83] else [toupper U c]) else db_upper U c)"

definition upper :: "unicode_db \<Rightarrow> pystr \<Rightarrow> pystr" where
  "upper U s = concat (map (upper_char U) s)"

definition decimal_value :: "unicode_db \<Rightarrow> nat \<Rightarrow> nat option" where
  "decimal_value U c =
     (if c < 256 then (if 48 \<le> c \<and> c \<le> 57 then Some (c - 48) else None) else db_decimal U c)"

definition is_decimal :: "unicode_db \<Rightarrow> nat \<Rightarrow> bool" where
  "is_decimal U c = (decimal_value U c \<noteq> None)"

text \<open>\<^verbatim>\<open>str.isdigit()\<close>: non-empty, and every character a decimal digit or another
  digit character (the superscripts below 256).\<close>

definition isdigit_char :: "unicode_db \<Rightarrow> nat \<Rightarrow> bool" where
  "isdigit_char U c =
     (is_decimal U c \<or> (if c < 256 then c = 178 \<or> c = 179 \<or> c = 185 else db_digit U c))"

definition isdigit :: "unicode_db \<Rightarrow> pystr \<Rightarrow> bool" where
  "isdigit U s = (s \<noteq> [] \<and> list_all (isdigit_char U) s)"

text \<open>An interpreter without any character above 255 that has a case or is a digit: the
  concrete inputs below stay under code point 256, where every table is written out.\<close>

definition latin1_db :: unicode_db where
  "latin1_db = \<lparr>db_tolower = (\<lambda>c. c), db_toupper = (\<lambda>c. c), db_upper = (\<lambda>c. [c]),
                 db_decimal = (\<lambda>c. None), db_digit = (\<lambda>c. False)\<rparr>"

section \<open>Regular expressions\<close>

text \<open>
  The patterns of the program are terms of \<open>rx\<close>; the matcher follows the backtracking
  search of the \<^verbatim>\<open>re\<close> module: alternatives and repetitions are tried in the order
  of their priority and the first way to complete the match is the result.
  \<open>Rep lo hi g r\<close> repeats \<open>r\<close> between \<open>lo\<close> and \<open>hi\<close> times (no upper bound for
  \<open>None\<close>), greedily when \<open>g\<close> holds; \<open>Grp n r\<close> is the capturing group \<open>n\<close>;
  \<open>Ahead r\<close> is the lookahead \<^verbatim>\<open>(?=r)\<close>; \<open>Bol\<close> and \<open>Eol\<close> are \<^verbatim>\<open>^\<close> and
  \<^verbatim>\<open>$\<close>.
\<close>

datatype cset = CChar nat | CRange nat nat | CSpace | CDigit

datatype rx =
    Lit nat
  | Dot
  | Cls "cset list"
  | NCls "cset list"
  | Eps
  | Seq rx rx
  | Alt rx rx
  | Rep nat "nat option" bool rx
  | Grp nat rx
  | Ahead rx
  | Bol
  | Eol

record flags =
  ignorecase :: bool
  dotall :: bool
  multiline :: bool

definition no_flags :: flags where
  "no_flags = \<lparr>ignorecase = False, dotall = False, multiline = False\<rparr>"

definition fl_I :: flags where
  "fl_I = \<lparr>ignorecase = True, dotall = False, multiline = False\<rparr>"

definition fl_IS :: flags where
  "fl_IS = \<lparr>ignorecase = True, dotall = True, multiline = False\<rparr>"

definition fl_M :: flags where
  "fl_M = \<lparr>ignorecase = False, dotall = False, multiline = True\<rparr>"

text \<open>Case-insensitive matching compares simple lower-case forms; \<open>ignorecase_fixes\<close>
  is the table of lower-case letters that share an upper-case letter, for the code
  points below 256 (a pattern of this program has no other).\<close>

definition iscased :: "unicode_db \<Rightarrow> nat \<Rightarrow> bool" where
  "iscased U c = (c \<noteq> tolower U c \<or> c \<noteq> toupper U c)"

definition ignorecase_fixes :: "nat \<Rightarrow> nat list" where
  "ignorecase_fixes lo =
     (if lo = 105 then [305] else if lo = 115 then [383] else if lo = 181 then [956] else [])"

definition lower_eq :: "unicode_db \<Rightarrow> nat \<Rightarrow> nat \<Rightarrow> bool" where
  "lower_eq U c' x = (c' = tolower U x \<or> c' \<in> set (ignorecase_fixes (tolower U x)))"

definition lit_match :: "unicode_db \<Rightarrow> flags \<Rightarrow> nat \<Rightarrow> nat \<Rightarrow> bool" where
  "lit_match U F p c =
     (if ignorecase F \<and> iscased U p then lower_eq U (tolower U c) p else c = p)"

fun item_match :: "unicode_db \<Rightarrow> nat \<Rightarrow> cset \<Rightarrow> bool" where
  "item_match U c (CChar x) = (c = x)"
| "item_match U c (CRange a b) = (a \<le> c \<and> c \<le> b)"
| "item_match U c CSpace = isspace c"
| "item_match U c CDigit = is_decimal U c"

fun item_match_ci :: "unicode_db \<Rightarrow> nat \<Rightarrow> cset \<Rightarrow> bool" where
  "item_match_ci U c' (CChar x) = lower_eq U c' x"
| "item_match_ci U c' (CRange a b) = list_ex (lower_eq U c') [a..<Suc b]"
| "item_match_ci U c' CSpace = isspace c'"
| "item_match_ci U c' CDigit = is_decimal U c'"

fun item_cased :: "unicode_db \<Rightarrow> cset \<Rightarrow> bool" where
  "item_cased U (CChar x) = iscased U x"
| "item_cased U (CRange a b) = list_ex (iscased U) [a..<Suc b]"
| "item_cased U CSpace = False"
| "item_cased U CDigit = False"

definition cls_match :: "unicode_db \<Rightarrow> flags \<Rightarrow> cset list \<Rightarrow> nat \<Rightarrow> bool" where
  "cls_match U F items c =
     (if ignorecase F \<and> list_ex (item_cased U) items
      then list_ex (item_match_ci U (tolower U c)) items
      else list_ex (item_match U c) items)"

text \<open>
  The state of a match: the position, the number of characters left, the text from the
  position on, the character before it, and the spans of the groups closed so far (the
  latest first). The matcher is a backtracking machine on a stack of what is still to be
  matched: a pattern, the end of a group, or the next round of a repetition.
\<close>

datatype mstate =
  MState (pos: nat) (left: nat) (rest: pystr) (prevc: "nat option") (caps: "(nat \<times> nat \<times> nat) list")

datatype frame = M rx | Close nat nat | Loop rx nat "nat option" bool nat

fun eat :: "mstate \<Rightarrow> (nat \<times> mstate) option" where
  "eat (MState p l [] pv cp) = None"
| "eat (MState p l (c # cs) pv cp) =
     (if l = 0 then None else Some (c, MState (p + 1) (l - 1) cs (Some c) cp))"

text \<open>\<^verbatim>\<open>$\<close> matches at the end of the text and before a newline that ends it; with
  \<^verbatim>\<open>re.MULTILINE\<close>, before every newline.\<close>

fun at_eol :: "flags \<Rightarrow> pystr \<Rightarrow> bool" where
  "at_eol F [] = True"
| "at_eol F (c # cs) = (if c = 10 then (multiline F \<or> cs = []) else False)"

fun rx_weight :: "rx \<Rightarrow> nat" where
  "rx_weight (Seq a b) = Suc (rx_weight a + rx_weight b)"
| "rx_weight (Alt a b) = Suc (rx_weight a + rx_weight b)"
| "rx_weight (Rep lo hi g r) = rx_weight r + 3"
| "rx_weight (Grp n r) = rx_weight r + 2"
| "rx_weight (Ahead r) = rx_weight r + 1"
| "rx_weight r = 1"

fun frame_weight :: "nat \<Rightarrow> frame \<Rightarrow> nat" where
  "frame_weight l (M r) = rx_weight r"
| "frame_weight l (Close n a) = 1"
| "frame_weight l (Loop r lo hi g l0) = (if l < l0 then rx_weight r + 5 else 1)"

text \<open>
  \<open>run\<close> returns the state at the end of the first complete match in the order of the
  backtracking search. A repetition is iterated again only after an iteration that
  consumed a character (the bodies of this program's repetitions always do).
\<close>

function run :: "unicode_db \<Rightarrow> flags \<Rightarrow> frame list \<Rightarrow> mstate \<Rightarrow> mstate option" where
  "run U F [] st = Some st"
| "run U F (M (Lit p) # stk) st =
     (case eat st of
        None \<Rightarrow> None
      | Some (c, st') \<Rightarrow> if lit_match U F p c then run U F stk st' else None)"
| "run U F (M Dot # stk) st =
     (case eat st of
        None \<Rightarrow> None
      | Some (c, st') \<Rightarrow> if dotall F \<or> c \<noteq> 10 then run U F stk st' else None)"
| "run U F (M (Cls items) # stk) st =
     (case eat st of
        None \<Rightarrow> None
      | Some (c, st') \<Rightarrow> if cls_match U F items c then run U F stk st' else None)"
| "run U F (M (NCls items) # stk) st =
     (case eat st of
        None \<Rightarrow> None
      | Some (c, st') \<Rightarrow> if \<not> cls_match U F items c then run U F stk st' else None)"
| "run U F (M Eps # stk) st = run U F stk st"
| "run U F (M (Seq a b) # stk) st = run U F (M a # M b # stk) st"
| "run U F (M (Alt a b) # stk) st =
     (case run U F (M a # stk) st of
        Some x \<Rightarrow> Some x
      | None \<Rightarrow> run U F (M b # stk) st)"
| "run U F (M (Rep lo hi g r) # stk) (MState p l s pv cp) =
     (if hi = Some 0 then (if lo = 0 then run U F stk (MState p l s pv cp) else None)
      else if g then
        (case run U F (M r # Loop r (lo - 1) (map_option (\<lambda>h. h - 1) hi) g l # stk) (MState p l s pv cp) of
           Some x \<Rightarrow> Some x
         | None \<Rightarrow> if lo = 0 then run U F stk (MState p l s pv cp) else None)
      else
        (case (if lo = 0 then run U F stk (MState p l s pv cp) else None) of
           Some x \<Rightarrow> Some x
         | None \<Rightarrow> run U F (M r # Loop r (lo - 1) (map_option (\<lambda>h. h - 1) hi) g l # stk) (MState p l s pv cp)))"
| "run U F (Loop r lo hi g l0 # stk) (MState p l s pv cp) =
     (if l < l0 then run U F (M (Rep lo hi g r) # stk) (MState p l s pv cp) else None)"
| "run U F (M (Grp n r) # stk) (MState p l s pv cp) =
     run U F (M r # Close n p # stk) (MState p l s pv cp)"
| "run U F (Close n a # stk) (MState p l s pv cp) =
     run U F stk (MState p l s pv ((n, a, p) # cp))"
| "run U F (M (Ahead r) # stk) (MState p l s pv cp) =
     (case run U F [M r] (MState p l s pv cp) of
        None \<Rightarrow> None
      | Some st' \<Rightarrow> run U F stk (MState p l s pv (caps st')))"
| "run U F (M Bol # stk) (MState p l s pv cp) =
     (if pv = None \<or> (multiline F \<and> pv = Some 10) then run U F stk (MState p l s pv cp) else None)"
| "run U F (M Eol # stk) (MState p l s pv cp) =
     (if at_eol F s then run U F stk (MState p l s pv cp) else None)"
  by pat_completeness auto
termination
  by (relation "measures [\<lambda>(U, F, stk, st). left st,
                          \<lambda>(U, F, stk, st). sum_list (map (frame_weight (left st)) stk)]")
     (auto elim!: eat.elims split: if_splits)

text \<open>\<^verbatim>\<open>len(s)\<close>, counted with a running sum.\<close>

definition len :: "'a list \<Rightarrow> nat" where
  "len s = foldl (\<lambda>n x. n + 1) 0 s"

text \<open>A match object: where the match starts and ends, and the spans of its groups.\<close>

datatype rmatch = RMatch (m_start: nat) (m_end: nat) (m_caps: "(nat \<times> nat \<times> nat) list")

definition match_at :: "unicode_db \<Rightarrow> flags \<Rightarrow> rx \<Rightarrow> nat \<Rightarrow> nat \<Rightarrow> nat option \<Rightarrow> pystr \<Rightarrow> rmatch option" where
  "match_at U F r p l prev s =
     (case run U F [M r] (MState p l s prev []) of
        None \<Rightarrow> None
      | Some st \<Rightarrow> Some (RMatch p (pos st) (caps st)))"

text \<open>\<^verbatim>\<open>re.search\<close>: the match at the leftmost position that has one.\<close>

fun search_from :: "unicode_db \<Rightarrow> flags \<Rightarrow> rx \<Rightarrow> nat \<Rightarrow> nat \<Rightarrow> nat option \<Rightarrow> pystr \<Rightarrow> rmatch option" where
  "search_from U F r p l prev [] = match_at U F r p l prev []"
| "search_from U F r p l prev (c # cs) =
     (case match_at U F r p l prev (c # cs) of
        Some mt \<Rightarrow> Some mt
      | None \<Rightarrow> search_from U F r (p + 1) (l - 1) (Some c) cs)"

definition re_search :: "unicode_db \<Rightarrow> flags \<Rightarrow> rx \<Rightarrow> pystr \<Rightarrow> rmatch option" where
  "re_search U F r s = search_from U F r 0 (len s) None s"

text \<open>\<^verbatim>\<open>re.finditer\<close>: the successive matches from the left, each search starting where
  the match before ended (one character further after an empty match).\<close>

fun iter_from :: "unicode_db \<Rightarrow> flags \<Rightarrow> rx \<Rightarrow> nat \<Rightarrow> nat \<Rightarrow> nat option \<Rightarrow> pystr \<Rightarrow> nat \<Rightarrow> rmatch list" where
  "iter_from U F r p l prev [] skip =
     (if skip = 0 then (case match_at U F r p l prev [] of None \<Rightarrow> [] | Some mt \<Rightarrow> [mt]) else [])"
| "iter_from U F r p l prev (c # cs) skip =
     (if 0 < skip then iter_from U F r (p + 1) (l - 1) (Some c) cs (skip - 1)
      else (case match_at U F r p l prev (c # cs) of
              None \<Rightarrow> iter_from U F r (p + 1) (l - 1) (Some c) cs 0
            | Some mt \<Rightarrow> mt # iter_from U F r (p + 1) (l - 1) (Some c) cs (m_end mt - p - 1)))"

definition re_finditer :: "unicode_db \<Rightarrow> flags \<Rightarrow> rx \<Rightarrow> pystr \<Rightarrow> rmatch list" where
  "re_finditer U F r s = iter_from U F r 0 (len s) None s 0"

definition slice :: "pystr \<Rightarrow> nat \<Rightarrow> nat \<Rightarrow> pystr" where
  "slice s a b = take (b - a) (drop a s)"

text \<open>\<^verbatim>\<open>match.group(n)\<close> for a group that took part in the match; \<^verbatim>\<open>None\<close>
  otherwise.\<close>

definition group :: "pystr \<Rightarrow> rmatch \<Rightarrow> nat \<Rightarrow> pystr option" where
  "group s mt n =
     (if n = 0 then Some (slice s (m_start mt) (m_end mt))
      else map_option (\<lambda>(a, b). slice s a b) (map_of (m_caps mt) n))"

definition group_str :: "pystr \<Rightarrow> rmatch \<Rightarrow> nat \<Rightarrow> pystr" where
  "group_str s mt n = (case group s mt n of None \<Rightarrow> [] | Some g \<Rightarrow> g)"

text \<open>\<^verbatim>\<open>re.split\<close> for a pattern without groups: the text between the matches.\<close>

fun pieces :: "pystr \<Rightarrow> nat \<Rightarrow> rmatch list \<Rightarrow> pystr list" where
  "pieces s cur [] = [drop cur s]"
| "pieces s cur (mt # ms) = slice s cur (m_start mt) # pieces s (m_end mt) ms"

definition re_split :: "unicode_db \<Rightarrow> flags \<Rightarrow> rx \<Rightarrow> pystr \<Rightarrow> pystr list" where
  "re_split U F r s = pieces s 0 (re_finditer U F r s)"

text \<open>\<^verbatim>\<open>re.sub\<close> with a replacement that is a plain string.\<close>

fun join :: "pystr \<Rightarrow> pystr list \<Rightarrow> pystr" where
  "join sep [] = []"
| "join sep [x] = x"
| "join sep (x # y # ys) = x @ sep @ join sep (y # ys)"

definition re_sub :: "unicode_db \<Rightarrow> flags \<Rightarrow> rx \<Rightarrow> pystr \<Rightarrow> pystr \<Rightarrow> pystr" where
  "re_sub U F r repl s = join repl (re_split U F r s)"

text \<open>Writing patterns.\<close>

definition seqs :: "rx list \<Rightarrow> rx" where
  "seqs rs = foldr Seq rs Eps"

definition lits :: "pystr \<Rightarrow> rx" where
  "lits s = seqs (map Lit s)"

definition lit :: "string \<Rightarrow> rx" where
  "lit s = lits (ascii s)"

definition star :: "rx \<Rightarrow> rx" where "star r = Rep 0 None True r"
definition plus :: "rx \<Rightarrow> rx" where "plus r = Rep 1 None True r"
definition opt :: "rx \<Rightarrow> rx" where "opt r = Rep 0 (Some 1) True r"
definition lazy_star :: "rx \<Rightarrow> rx" where "lazy_star r = Rep 0 None False r"
definition lazy_plus :: "rx \<Rightarrow> rx" where "lazy_plus r = Rep 1 None False r"
definition times :: "nat \<Rightarrow> rx \<Rightarrow> rx" where "times n r = Rep n (Some n) True r"
definition ws :: rx where "ws = Cls [CSpace]"
definition digit :: rx where "digit = Cls [CDigit]"

text \<open>\<^verbatim>\<open>\d{2}/\d{2}/\d{4}\<close>\<close>

definition rx_date :: rx where
  "rx_date = seqs [times 2 digit, lit ''/'', times 2 digit, lit ''/'', times 4 digit]"


text \<open>\<^verbatim>\<open>re.findall\<close> for a pattern with one group, and for one without groups.\<close>

definition re_findall1 :: "unicode_db \<Rightarrow> flags \<Rightarrow> rx \<Rightarrow> pystr \<Rightarrow> pystr list" where
  "re_findall1 U F r s = map (\<lambda>mt. group_str s mt 1) (re_finditer U F r s)"

definition re_findall0 :: "unicode_db \<Rightarrow> flags \<Rightarrow> rx \<Rightarrow> pystr \<Rightarrow> pystr list" where
  "re_findall0 U F r s = map (\<lambda>mt. group_str s mt 0) (re_finditer U F r s)"

text \<open>\<^verbatim>\<open>list(dict.fromkeys(xs))\<close>: the first occurrence of every element, in order.\<close>

definition fromkeys :: "'a list \<Rightarrow> 'a list" where
  "fromkeys xs = rev (remdups (rev xs))"

section \<open>FormalityParser\<close>

record formalite =
  numero_ordre :: nat
  date_depot :: pystr
  date_acte :: pystr
  contenu :: pystr
  nature_acte_redacteur :: pystr
  reference_enliassement :: pystr

text \<open>\<^verbatim>\<open>Date de d[e\'e]p[o\^o]t\s*:\<close>\<close>

definition depot_pattern :: rx where
  "depot_pattern =
     seqs [lit ''Date de d'', Cls [CChar 101, CChar 233], lit ''p'', Cls [CChar 111, CChar 244],
           lit ''t'', star ws, lit '':'']"

text \<open>\<^verbatim>\<open>Nature de l'acte\s*:\s*(.+?)(?:\n|R\'edacteur)\<close>\<close>

definition entre_pattern :: rx where
  "entre_pattern =
     seqs [lits (ascii ''Nature de l'' @ [39] @ ascii ''acte''), star ws, lit '':'', star ws,
           Grp 1 (lazy_plus Dot),
           Alt (Lit 10) (lits (ascii ''R'' @ [233] @ ascii ''dacteur''))]"

text \<open>\<^verbatim>\<open>(\d{2}/\d{2}/\d{4})\<close>\<close>

definition date_depot_pattern :: rx where
  "date_depot_pattern = Grp 1 rx_date"

text \<open>\<^verbatim>\<open>Date de l'acte\s*:\s*(\d{2}/\d{2}/\d{4})\<close>\<close>

definition date_acte_pattern :: rx where
  "date_acte_pattern =
     seqs [lits (ascii ''Date de l'' @ [39] @ ascii ''acte''), star ws, lit '':'', star ws, Grp 1 rx_date]"

text \<open>\<^verbatim>\<open>R\'eference d'enliassement\s*:\s*([^\n]+)\<close>\<close>

definition ref_pattern :: rx where
  "ref_pattern =
     seqs [lits (ascii ''R'' @ [233] @ ascii ''ference d'' @ [39] @ ascii ''enliassement''),
           star ws, lit '':'', star ws, Grp 1 (plus (NCls [CChar 10]))]"

text \<open>\<^verbatim>\<open>\s+Date de l\'acte\s*:\s*\d{2}/\d{2}/\d{4}\<close>\<close>

definition ref_date_pattern :: rx where
  "ref_date_pattern =
     seqs [plus ws, lits (ascii ''Date de l'' @ [39] @ ascii ''acte''), star ws, lit '':'', star ws, rx_date]"

definition search_group1 :: "unicode_db \<Rightarrow> flags \<Rightarrow> rx \<Rightarrow> pystr \<Rightarrow> pystr option" where
  "search_group1 U F r s =
     (case re_search U F r s of None \<Rightarrow> None | Some mt \<Rightarrow> Some (group_str s mt 1))"

text \<open>The fields of one formality, from the trimmed text of its section.\<close>

definition formalite_of :: "unicode_db \<Rightarrow> nat \<Rightarrow> pystr \<Rightarrow> formalite" where
  "formalite_of U i contenu' =
     \<lparr>numero_ordre = i,
      date_depot =
        (case search_group1 U no_flags date_depot_pattern contenu' of
           Some d \<Rightarrow> d | None \<Rightarrow> non_trouve),
      date_acte =
        (case search_group1 U fl_I date_acte_pattern contenu' of
           Some d \<Rightarrow> d | None \<Rightarrow> non_trouve),
      contenu = ascii ''Date de depot: '' @ contenu',
      nature_acte_redacteur =
        (case search_group1 U fl_IS entre_pattern contenu' of
           Some g \<Rightarrow> strip g | None \<Rightarrow> non_trouve),
      reference_enliassement =
        (case search_group1 U fl_I ref_pattern contenu' of
           Some g \<Rightarrow> re_sub U no_flags ref_date_pattern [] (strip g)
         | None \<Rightarrow> [])\<rparr>"

text \<open>The loop over \<^verbatim>\<open>enumerate(sections)\<close>: the section before the first anchor is
  skipped, and so is a section that is empty once trimmed.\<close>

fun formalites_loop :: "unicode_db \<Rightarrow> nat \<Rightarrow> pystr list \<Rightarrow> formalite list" where
  "formalites_loop U i [] = []"
| "formalites_loop U i (section # sections) =
     (if i = 0 then formalites_loop U (i + 1) sections
      else if strip section \<noteq> [] then formalite_of U i (strip section) # formalites_loop U (i + 1) sections
      else formalites_loop U (i + 1) sections)"

definition sections_of :: "unicode_db \<Rightarrow> pystr \<Rightarrow> pystr list" where
  "sections_of U full_text = re_split U fl_I depot_pattern full_text"

definition extract_formalites :: "unicode_db \<Rightarrow> pystr \<Rightarrow> formalite list" where
  "extract_formalites U full_text = formalites_loop U 0 (sections_of U full_text)"

text \<open>The text of the document: every page followed by a newline.\<close>

definition full_text_of :: "pystr list \<Rightarrow> pystr" where
  "full_text_of pages = concat (map (\<lambda>page_text. page_text @ [10]) pages)"

text \<open>The number of occurrences of the anchor phrase in the text: the matches at which
  \<^verbatim>\<open>re.split\<close> cuts it.\<close>

definition nombre_ancres :: "unicode_db \<Rightarrow> pystr \<Rightarrow> nat" where
  "nombre_ancres U full_text = length (re_finditer U fl_I depot_pattern full_text)"

section \<open>ActeClassifier\<close>

text \<open>\<^verbatim>\<open>\s+de\s+la\s+formalit\'e\<close>, \<^verbatim>\<open>\s+de\s+la\s+formalite\<close> and the two
  patterns in capitals, in the order of the source.\<close>

definition patterns_formalite :: "rx list" where
  "patterns_formalite =
     [seqs [plus ws, lit ''de'', plus ws, lit ''la'', plus ws, lits (ascii ''formalit'' @ [233])],
      seqs [plus ws, lit ''de'', plus ws, lit ''la'', plus ws, lit ''formalite''],
      seqs [plus ws, lit ''DE'', plus ws, lit ''LA'', plus ws, lits (ascii ''FORMALIT'' @ [201])],
      seqs [plus ws, lit ''DE'', plus ws, lit ''LA'', plus ws, lit ''FORMALITE'']]"

fun classifier_loop :: "unicode_db \<Rightarrow> pystr \<Rightarrow> rx list \<Rightarrow> pystr" where
  "classifier_loop U nature_acte_original [] = nature_acte_original"
| "classifier_loop U nature_acte_original (pattern # patterns) =
     (case re_search U fl_I pattern nature_acte_original of
        Some mt \<Rightarrow>
          (let type_acte = strip (take (m_start mt) nature_acte_original)
           in if type_acte \<noteq> [] then type_acte else nature_acte_original)
      | None \<Rightarrow> classifier_loop U nature_acte_original patterns)"

definition classifier_type_acte :: "unicode_db \<Rightarrow> pystr \<Rightarrow> pystr" where
  "classifier_type_acte U nature_acte = classifier_loop U (strip nature_acte) patterns_formalite"

text \<open>The count of the act types: a dictionary in insertion order, as a list of pairs.\<close>

fun incr :: "'k \<Rightarrow> ('k \<times> nat) list \<Rightarrow> ('k \<times> nat) list" where
  "incr k [] = [(k, 1)]"
| "incr k ((k', n) # kvs) = (if k = k' then (k', n + 1) # kvs else (k', n) # incr k kvs)"

definition NON_TROUVE :: pystr where
  "NON_TROUVE = ascii ''NON TROUV'' @ [201]"

fun comptage_loop :: "unicode_db \<Rightarrow> formalite list \<Rightarrow> (pystr \<times> nat) list \<Rightarrow> (pystr \<times> nat) list" where
  "comptage_loop U [] comptage_types = comptage_types"
| "comptage_loop U (f # fs) comptage_types =
     (let nature_acte = strip (nature_acte_redacteur f)
      in if nature_acte \<noteq> [] \<and> upper U nature_acte \<noteq> NON_TROUVE
         then comptage_loop U fs (incr (classifier_type_acte U nature_acte) comptage_types)
         else comptage_loop U fs comptage_types)"

definition comptage_trie :: "unicode_db \<Rightarrow> formalite list \<Rightarrow> (pystr \<times> nat) list" where
  "comptage_trie U formalites = sorted_reverse snd (comptage_loop U formalites [])"


text \<open>What the count is compared with: the act types that are counted (the
  classification of every act text that is neither empty nor the not-found value, in
  the order of the formalities), and the number of occurrences of each type, the types
  in the order in which they are first seen.\<close>

definition types_comptes :: "unicode_db \<Rightarrow> formalite list \<Rightarrow> pystr list" where
  "types_comptes U formalites =
     map (\<lambda>f. classifier_type_acte U (strip (nature_acte_redacteur f)))
       (filter (\<lambda>f. strip (nature_acte_redacteur f) \<noteq> [] \<and>
                     upper U (strip (nature_acte_redacteur f)) \<noteq> NON_TROUVE) formalites)"

definition comptes :: "pystr list \<Rightarrow> (pystr \<times> nat) list" where
  "comptes ls = map (\<lambda>l. (l, count_list ls l)) (fromkeys ls)"

section \<open>MortgageAnalyzer\<close>

record infos_financieres =
  montant_principal :: pystr
  accessoires :: pystr
  taux_interet :: pystr
  date_extreme_exigibilite :: pystr
  date_extreme_effet :: pystr
  complement :: pystr

text \<open>The dictionary of \<^verbatim>\<open>extraire_lots_volumes_hypotheque\<close>; the financial keys are
  absent when the content is empty.\<close>

record lots_volumes =
  lv_lots :: "pystr list"
  lv_volume :: pystr
  lv_commune :: pystr
  lv_designation_cadastrale :: pystr
  lv_financier :: "infos_financieres option"

text \<open>\<^verbatim>\<open>Immeubles\s*.*?(?=\n\s*Montant|$)\<close>\<close>

definition immeubles_pattern :: rx where
  "immeubles_pattern =
     seqs [lit ''Immeubles'', star ws, lazy_star Dot,
           Ahead (Alt (seqs [Lit 10, star ws, lit ''Montant'']) Eol)]"

definition AZ :: cset where "AZ = CRange 65 90"

text \<open>\<^verbatim>\<open>[A-Z]{1,3}\s*\d+\<close>\<close>

definition rx_designation :: rx where
  "rx_designation = seqs [Rep 1 (Some 3) True (Cls [AZ]), star ws, plus digit]"

text \<open>\<^verbatim>\<open>([A-Z][A-Z\s\d]+?)\s+([A-Z]{1,3}\s*\d+)\s*\n((?:\s*\d+\s*\n?)+)\<close>\<close>

definition pattern_commune_designation :: rx where
  "pattern_commune_designation =
     seqs [Grp 1 (seqs [Cls [AZ], lazy_plus (Cls [AZ, CSpace, CDigit])]), plus ws,
           Grp 2 rx_designation, star ws, Lit 10,
           Grp 3 (plus (seqs [star ws, plus digit, star ws, opt (Lit 10)]))]"

text \<open>\<^verbatim>\<open>([A-Z][A-Z\s\d]+?)\s+[A-Z]{1,3}\s+\d+\<close> and
  \<^verbatim>\<open>Commune[:\s]*([A-Z][A-Z\s\d]+)\<close>\<close>

definition commune_patterns :: "rx list" where
  "commune_patterns =
     [seqs [Grp 1 (seqs [Cls [AZ], lazy_plus (Cls [AZ, CSpace, CDigit])]), plus ws,
            Rep 1 (Some 3) True (Cls [AZ]), plus ws, plus digit],
      seqs [lit ''Commune'', star (Cls [CChar 58, CSpace]),
            Grp 1 (seqs [Cls [AZ], plus (Cls [AZ, CSpace, CDigit])])]]"

text \<open>\<^verbatim>\<open>([A-Z]{1,3}\s*\d+)(?:\s*\n|\s*$)\<close> and
  \<^verbatim>\<open>cadastrale[:\s]*([A-Z]{1,3}\s*\d+)\<close>\<close>

definition designation_patterns :: "rx list" where
  "designation_patterns =
     [seqs [Grp 1 rx_designation, Alt (seqs [star ws, Lit 10]) (seqs [star ws, Eol])],
      seqs [lit ''cadastrale'', star (Cls [CChar 58, CSpace]), Grp 1 rx_designation]]"

text \<open>\<^verbatim>\<open>^\s*(\d+)\s*$\<close>\<close>

definition lot_line_pattern :: rx where
  "lot_line_pattern = seqs [Bol, star ws, Grp 1 (plus digit), star ws, Eol]"

text \<open>\<^verbatim>\<open>Volume[:\s]*(\d+|[A-Z]\d+)\<close>\<close>

definition volume_pattern :: rx where
  "volume_pattern =
     seqs [lit ''Volume'', star (Cls [CChar 58, CSpace]),
           Grp 1 (Alt (plus digit) (seqs [Cls [AZ], plus digit]))]"

text \<open>The first pattern of the list that matches gives its group, trimmed.\<close>

fun first_group1 :: "unicode_db \<Rightarrow> flags \<Rightarrow> rx list \<Rightarrow> pystr \<Rightarrow> pystr" where
  "first_group1 U F [] s = []"
| "first_group1 U F (pattern # patterns) s =
     (case search_group1 U F pattern s of
        Some g \<Rightarrow> strip g
      | None \<Rightarrow> first_group1 U F patterns s)"

text \<open>\<^verbatim>\<open>s.split(sep, 1)\<close> for a separator that is not empty: the text after the
  first occurrence of \<open>sep\<close>, if there is one.\<close>

fun after_first :: "'a list \<Rightarrow> 'a list \<Rightarrow> 'a list option" where
  "after_first sep [] = (if sep = [] then Some [] else None)"
| "after_first sep (y # ys) =
     (if starts_with sep (y # ys) then Some (drop (length sep) (y # ys)) else after_first sep ys)"

text \<open>The search of the \<^verbatim>\<open>Immeubles\<close> section: lots, volume, commune and cadastral
  designation, before the lots are cleaned.\<close>

definition section_immeubles_of :: "unicode_db \<Rightarrow> pystr \<Rightarrow> pystr list \<times> pystr \<times> pystr \<times> pystr" where
  "section_immeubles_of U contenu' =
     (case re_search U fl_IS immeubles_pattern contenu' of
        None \<Rightarrow> ([], [], [], [])
      | Some im \<Rightarrow>
          (let section_immeubles = group_str contenu' im 0;
               volume =
                 (case search_group1 U fl_I volume_pattern section_immeubles of
                    Some v \<Rightarrow> strip v | None \<Rightarrow> [])
           in case re_search U no_flags pattern_commune_designation section_immeubles of
                Some mt \<Rightarrow>
                  (re_findall0 U no_flags (plus digit) (group_str section_immeubles mt 3),
                   volume,
                   strip (group_str section_immeubles mt 1),
                   strip (group_str section_immeubles mt 2))
              | None \<Rightarrow>
                  (let commune = first_group1 U fl_I commune_patterns section_immeubles;
                       designation_cadastrale = first_group1 U fl_I designation_patterns section_immeubles;
                       lots =
                         (if designation_cadastrale \<noteq> [] then
                            (case after_first designation_cadastrale section_immeubles of
                               Some remaining_text \<Rightarrow> re_findall1 U fl_M lot_line_pattern remaining_text
                             | None \<Rightarrow> [])
                          else [])
                   in (lots, volume, commune, designation_cadastrale))))"

text \<open>\<^verbatim>\<open>[\d\s,\.]+\s*EUR\<close> after a label, and the other financial patterns.\<close>

definition rx_montant_eur :: rx where
  "rx_montant_eur =
     seqs [plus (Cls [CDigit, CSpace, CChar 44, CChar 46]), star ws, lit ''EUR'']"

definition montant_principal_pattern :: rx where
  "montant_principal_pattern = seqs [lit ''Montant principal'', star ws, lit '':'', star ws, Grp 1 rx_montant_eur]"

definition accessoires_pattern :: rx where
  "accessoires_pattern = seqs [lit ''Accessoires'', star ws, lit '':'', star ws, Grp 1 rx_montant_eur]"

text \<open>\<^verbatim>\<open>Taux d'int\'er\^et\s*:\s*([\d,\.]+\s*%)\<close>\<close>

definition taux_pattern :: rx where
  "taux_pattern =
     seqs [lits (ascii ''Taux d'' @ [39] @ ascii ''int'' @ [233] @ ascii ''r'' @ [234] @ ascii ''t''),
           star ws, lit '':'', star ws,
           Grp 1 (seqs [plus (Cls [CDigit, CChar 44, CChar 46]), star ws, lit ''%''])]"

text \<open>\<^verbatim>\<open>Date d'extr\^eme exigibilit\'e\s*:\s*(\d{2}/\d{2}/\d{4})\<close>\<close>

definition exigibilite_pattern :: rx where
  "exigibilite_pattern =
     seqs [lits (ascii ''Date d'' @ [39] @ ascii ''extr'' @ [234] @ ascii ''me exigibilit'' @ [233]),
           star ws, lit '':'', star ws, Grp 1 rx_date]"

text \<open>\<^verbatim>\<open>Date d'extr\^eme effet\s*:\s*(\d{2}/\d{2}/\d{4})\<close>\<close>

definition effet_pattern :: rx where
  "effet_pattern =
     seqs [lits (ascii ''Date d'' @ [39] @ ascii ''extr'' @ [234] @ ascii ''me effet''),
           star ws, lit '':'', star ws, Grp 1 rx_date]"

text \<open>\<^verbatim>\<open>Compl\'ement\s*:\s*(.*?)(?=\n\s*Disposition|\n\s*\d+\s*/\s*\d+\s*Demande|$)\<close>\<close>

definition complement_pattern :: rx where
  "complement_pattern =
     seqs [lits (ascii ''Compl'' @ [233] @ ascii ''ment''), star ws, lit '':'', star ws,
           Grp 1 (lazy_star Dot),
           Ahead (Alt (seqs [Lit 10, star ws, lit ''Disposition''])
                 (Alt (seqs [Lit 10, star ws, plus digit, star ws, lit ''/'', star ws, plus digit,
                             star ws, lit ''Demande''])
                      Eol))]"

definition group1_or_empty :: "unicode_db \<Rightarrow> flags \<Rightarrow> rx \<Rightarrow> pystr \<Rightarrow> pystr" where
  "group1_or_empty U F r s = (case search_group1 U F r s of Some g \<Rightarrow> strip g | None \<Rightarrow> [])"

definition extraire_infos_financieres :: "unicode_db \<Rightarrow> pystr \<Rightarrow> infos_financieres" where
  "extraire_infos_financieres U contenu' =
     \<lparr>montant_principal = group1_or_empty U fl_I montant_principal_pattern contenu',
      accessoires = group1_or_empty U fl_I accessoires_pattern contenu',
      taux_interet = group1_or_empty U fl_I taux_pattern contenu',
      date_extreme_exigibilite = group1_or_empty U fl_I exigibilite_pattern contenu',
      date_extreme_effet = group1_or_empty U fl_I effet_pattern contenu',
      complement =
        (case search_group1 U fl_IS complement_pattern contenu' of
           Some g \<Rightarrow> strip (re_sub U no_flags (plus (Lit 10)) (ascii '' '') (strip g))
         | None \<Rightarrow> [])\<rparr>"

definition extraire_lots_volumes_hypotheque :: "unicode_db \<Rightarrow> pystr \<Rightarrow> lots_volumes" where
  "extraire_lots_volumes_hypotheque U contenu' =
     (if contenu' = [] then
        \<lparr>lv_lots = [], lv_volume = [], lv_commune = [], lv_designation_cadastrale = [],
         lv_financier = None\<rparr>
      else
        (case section_immeubles_of U contenu' of
           (lots, volume, commune, designation_cadastrale) \<Rightarrow>
             \<lparr>lv_lots = fromkeys (map strip (filter (\<lambda>lot. isdigit U (strip lot)) lots)),
              lv_volume = volume,
              lv_commune = commune,
              lv_designation_cadastrale = designation_cadastrale,
              lv_financier = Some (extraire_infos_financieres U contenu')\<rparr>))"

record hypotheque_active =
  h_numero_ordre :: nat
  h_date_depot :: pystr
  h_date_acte :: pystr
  h_nature_acte :: pystr
  h_reference_enliassement :: pystr
  h_contenu :: pystr
  h_lots_volumes :: lots_volumes
  h_statut :: pystr

definition RADIATION :: pystr where "RADIATION = ascii ''RADIATION''"
definition TOTALE :: pystr where "TOTALE = ascii ''TOTALE''"
definition HYPOTHEQUE :: pystr where "HYPOTHEQUE = ascii ''HYPOTHEQUE''"
definition CREANCIERS :: pystr where "CREANCIERS = ascii ''CR'' @ [201] @ ascii ''ANCIERS''"
definition DEBITEUR :: pystr where "DEBITEUR = ascii ''D'' @ [201] @ ascii ''BITEUR''"
definition PROPRIETAIRES_IMMEUBLE :: pystr where
  "PROPRIETAIRES_IMMEUBLE = ascii ''PROPRI'' @ [201] @ ascii ''TAIRES IMMEUBLE''"

definition est_radiation :: "unicode_db \<Rightarrow> formalite \<Rightarrow> bool" where
  "est_radiation U f =
     (py_in RADIATION (upper U (nature_acte_redacteur f)) \<and> py_in TOTALE (upper U (nature_acte_redacteur f)))"

definition est_hypotheque_explicite :: "unicode_db \<Rightarrow> formalite \<Rightarrow> bool" where
  "est_hypotheque_explicite U f = py_in HYPOTHEQUE (upper U (nature_acte_redacteur f))"

definition est_hypotheque_implicite :: "unicode_db \<Rightarrow> formalite \<Rightarrow> bool" where
  "est_hypotheque_implicite U f =
     (py_in CREANCIERS (upper U (contenu f)) \<and>
      (py_in DEBITEUR (upper U (contenu f)) \<or> py_in PROPRIETAIRES_IMMEUBLE (upper U (contenu f))))"

text \<open>The first loop of \<^verbatim>\<open>analyser_hypotheques_actives\<close>: the mortgages and the
  cancellations, each list in the order of the formalities.\<close>

fun separer :: "unicode_db \<Rightarrow> formalite list \<Rightarrow> formalite list \<times> formalite list" where
  "separer U [] = ([], [])"
| "separer U (f # fs) =
     (case separer U fs of
        (hypotheques, radiations) \<Rightarrow>
          if est_radiation U f then (hypotheques, f # radiations)
          else if est_hypotheque_explicite U f \<or> est_hypotheque_implicite U f
               then (f # hypotheques, radiations)
               else (hypotheques, radiations))"

text \<open>The search of a matching cancellation, left at the first one found.\<close>

fun est_radiee :: "unicode_db \<Rightarrow> pystr \<Rightarrow> formalite list \<Rightarrow> bool" where
  "est_radiee U date_depot_hyp [] = False"
| "est_radiee U date_depot_hyp (radiation # radiations) =
     (if py_in date_depot_hyp (nature_acte_redacteur radiation) \<and>
         py_in RADIATION (upper U (nature_acte_redacteur radiation)) \<and>
         py_in TOTALE (upper U (nature_acte_redacteur radiation))
      then True
      else est_radiee U date_depot_hyp radiations)"

definition hypotheque_active_of :: "unicode_db \<Rightarrow> formalite \<Rightarrow> hypotheque_active" where
  "hypotheque_active_of U hypotheque =
     \<lparr>h_numero_ordre = numero_ordre hypotheque,
      h_date_depot = date_depot hypotheque,
      h_date_acte = date_acte hypotheque,
      h_nature_acte = nature_acte_redacteur hypotheque,
      h_reference_enliassement = reference_enliassement hypotheque,
      h_contenu = contenu hypotheque,
      h_lots_volumes = extraire_lots_volumes_hypotheque U (contenu hypotheque),
      h_statut = ascii ''ACTIVE''\<rparr>"

fun actives_loop :: "unicode_db \<Rightarrow> formalite list \<Rightarrow> formalite list \<Rightarrow> hypotheque_active list" where
  "actives_loop U radiations [] = []"
| "actives_loop U radiations (hypotheque # hypotheques) =
     (if \<not> est_radiee U (date_depot hypotheque) radiations
      then hypotheque_active_of U hypotheque # actives_loop U radiations hypotheques
      else actives_loop U radiations hypotheques)"

definition analyser_hypotheques_actives :: "unicode_db \<Rightarrow> formalite list \<Rightarrow> hypotheque_active list" where
  "analyser_hypotheques_actives U formalites =
     (case separer U formalites of
        (hypotheques, radiations) \<Rightarrow> actives_loop U radiations hypotheques)"


section \<open>MutationAnalyzer\<close>

record personne =
  numero :: pystr
  designation :: pystr
  date_naissance :: pystr

record ligne_immeuble =
  li_beneficiaire_numero :: pystr
  li_droits :: pystr
  li_commune :: pystr
  li_designation_cadastrale :: pystr
  li_volume :: pystr
  li_lots :: "pystr list"

record immeubles_mut =
  im_beneficiaire_numero :: pystr
  im_droits :: pystr
  im_commune :: pystr
  im_designation_cadastrale :: pystr
  im_volume :: pystr
  im_lots :: "pystr list"
  lignes_detaillees :: "ligne_immeuble list"

text \<open>The dictionary of \<^verbatim>\<open>extraire_mutations\<close>; \<open>immeubles\<close> is \<open>None\<close> for the
  empty dictionary.\<close>

record mutations_data =
  disposant_donateur :: "personne list"
  beneficiaire_donataire :: "personne list"
  immeubles :: "immeubles_mut option"
  montant :: pystr

text \<open>\<^verbatim>\<open>(\d+)\s+([A-Z\'][A-Z\s\']+?)\s+(\d{2}/\d{2}/\d{4}|\d{3}\s+\d{3}\s+\d{3})\<close>\<close>

definition rx_personne :: rx where
  "rx_personne =
     seqs [Grp 1 (plus digit), plus ws,
           Grp 2 (seqs [Cls [AZ, CChar 39], lazy_plus (Cls [AZ, CSpace, CChar 39])]), plus ws,
           Grp 3 (Alt rx_date (seqs [times 3 digit, plus ws, times 3 digit, plus ws, times 3 digit]))]"

definition personne_of :: "pystr \<Rightarrow> rmatch \<Rightarrow> personne" where
  "personne_of s mt =
     \<lparr>numero = strip (group_str s mt 1),
      designation = strip (group_str s mt 2),
      date_naissance = strip (group_str s mt 3)\<rparr>"

text \<open>\<^verbatim>\<open>Num\'ero\s+D\'esignation des personnes\s+Date de naissance.*?\n\<close>, the header
  of a table of persons.\<close>

definition rx_entete_personnes :: rx where
  "rx_entete_personnes =
     seqs [lits (ascii ''Num'' @ [233] @ ascii ''ro''), plus ws,
           lits (ascii ''D'' @ [233] @ ascii ''signation des personnes''), plus ws,
           lit ''Date de naissance'', lazy_star Dot, Lit 10]"

definition rx_Beneficiaire :: rx where
  "rx_Beneficiaire = lits (ascii ''B'' @ [233] @ ascii ''n'' @ [233] @ ascii ''ficiaire'')"

text \<open>The lookaheads \<^verbatim>\<open>(?=\n\s*B\'en\'eficiaire|\n\s*Immeubles|$)\<close> and
  \<^verbatim>\<open>(?=\n\s*Immeubles|$)\<close>.\<close>

definition fin_disposant :: rx where
  "fin_disposant =
     Ahead (Alt (seqs [Lit 10, star ws, rx_Beneficiaire])
           (Alt (seqs [Lit 10, star ws, lit ''Immeubles'']) Eol))"

definition fin_beneficiaire :: rx where
  "fin_beneficiaire = Ahead (Alt (seqs [Lit 10, star ws, lit ''Immeubles'']) Eol)"

definition disposant_patterns :: "rx list" where
  "disposant_patterns =
     [seqs [lit ''Disposant'', star (Cls [CChar 44, CSpace]), lit ''Donateur'', star ws, lazy_star Dot,
            rx_entete_personnes, Grp 1 (lazy_star Dot), fin_disposant],
      seqs [lit ''Disposant'', star ws, lazy_star Dot,
            rx_entete_personnes, Grp 1 (lazy_star Dot), fin_disposant],
      seqs [lit ''Donateur'', star ws, lazy_star Dot,
            rx_entete_personnes, Grp 1 (lazy_star Dot), fin_disposant]]"

definition beneficiaire_patterns :: "rx list" where
  "beneficiaire_patterns =
     [seqs [rx_Beneficiaire, star (Cls [CChar 44, CSpace]), lit ''Donataire'', star ws, lazy_star Dot,
            rx_entete_personnes, Grp 1 (lazy_star Dot), fin_beneficiaire],
      seqs [rx_Beneficiaire, star ws, lazy_star Dot,
            rx_entete_personnes, Grp 1 (lazy_star Dot), fin_beneficiaire],
      seqs [lit ''Donataire'', star ws, lazy_star Dot,
            rx_entete_personnes, Grp 1 (lazy_star Dot), fin_beneficiaire]]"

text \<open>\<^verbatim>\<open>Disposant.*?\n.*?\<close> and \<^verbatim>\<open>B\'en\'eficiaire.*?\n.*?\<close>, each followed by
  the pattern of one person.\<close>

definition simple_disposant :: rx where
  "simple_disposant = seqs [lit ''Disposant'', lazy_star Dot, Lit 10, lazy_star Dot, rx_personne]"

definition simple_beneficiaire :: rx where
  "simple_beneficiaire = seqs [rx_Beneficiaire, lazy_star Dot, Lit 10, lazy_star Dot, rx_personne]"

text \<open>The loop over the patterns of a table of persons: the first pattern that matches
  gives the block (and ends the loop, whether or not the block has a row); with no row
  found, one person is searched directly after the label.\<close>

fun personnes_bloc :: "unicode_db \<Rightarrow> rx list \<Rightarrow> pystr \<Rightarrow> personne list" where
  "personnes_bloc U [] contenu' = []"
| "personnes_bloc U (pattern # patterns) contenu' =
     (case search_group1 U fl_IS pattern contenu' of
        Some g \<Rightarrow> map (personne_of (strip g)) (re_finditer U no_flags rx_personne (strip g))
      | None \<Rightarrow> personnes_bloc U patterns contenu')"

definition extraire_personnes :: "unicode_db \<Rightarrow> rx list \<Rightarrow> rx \<Rightarrow> pystr \<Rightarrow> personne list" where
  "extraire_personnes U patterns simple contenu' =
     (case personnes_bloc U patterns contenu' of
        [] \<Rightarrow> (case re_search U fl_IS simple contenu' of
                 Some mt \<Rightarrow> [personne_of contenu' mt]
               | None \<Rightarrow> [])
      | p # ps \<Rightarrow> p # ps)"

text \<open>\<^verbatim>\<open>B\'en\'eficiaires\s+Droits\s+Commune\s+D\'esignation cadastrale\s+Volume\s+Lot\s*\n\<close>\<close>

definition rx_entete_immeubles :: rx where
  "rx_entete_immeubles =
     seqs [rx_Beneficiaire, lit ''s'', plus ws, lit ''Droits'', plus ws, lit ''Commune'', plus ws,
           lits (ascii ''D'' @ [233] @ ascii ''signation cadastrale''), plus ws,
           lit ''Volume'', plus ws, lit ''Lot'', star ws, Lit 10]"

definition immeubles_patterns :: "rx list" where
  "immeubles_patterns =
     [seqs [lit ''Immeubles'', star ws, lazy_star Dot, rx_entete_immeubles, Grp 1 (lazy_star Dot),
            Ahead (Alt (seqs [Lit 10, star ws, lit ''US'', star ws, lit '':'']) Eol)],
      seqs [lit ''Immeubles'', star ws, Lit 10, star ws, rx_entete_immeubles, Grp 1 (lazy_star Dot),
            Ahead (Alt (seqs [Lit 10, star ws, Rep 2 None True (Cls [AZ]), star ws, lit '':'']) Eol)]]"

text \<open>The rows of the property table:
  \<^verbatim>\<open>(\d+(?:\s+\`a\s+\d+)?)\s+([A-Z/]{1,3})\s+([A-Z\s\d]+?)\s+([A-Z]{1,3}\s*\d+)\s*\n((?:\s*\d+\s*\n?)*)\<close>
  and the same with \<^verbatim>\<open>([A-Z]{2,})\<close> as the second group.\<close>

definition rx_ligne :: "rx \<Rightarrow> rx" where
  "rx_ligne droits =
     seqs [Grp 1 (seqs [plus digit, opt (seqs [plus ws, Lit 224, plus ws, plus digit])]), plus ws,
           Grp 2 droits, plus ws,
           Grp 3 (lazy_plus (Cls [AZ, CSpace, CDigit])), plus ws,
           Grp 4 rx_designation, star ws, Lit 10,
           Grp 5 (star (seqs [star ws, plus digit, star ws, opt (Lit 10)]))]"

definition ligne_patterns :: "rx list" where
  "ligne_patterns =
     [rx_ligne (Rep 1 (Some 3) True (Cls [AZ, CChar 47])),
      rx_ligne (Rep 2 None True (Cls [AZ]))]"

definition ligne_of :: "unicode_db \<Rightarrow> pystr \<Rightarrow> rmatch \<Rightarrow> ligne_immeuble" where
  "ligne_of U s mt =
     \<lparr>li_beneficiaire_numero = strip (group_str s mt 1),
      li_droits = strip (group_str s mt 2),
      li_commune = strip (group_str s mt 3),
      li_designation_cadastrale = strip (group_str s mt 4),
      li_volume = [],
      li_lots = re_findall0 U no_flags (plus digit) (group_str s mt 5)\<rparr>"

fun lignes_loop :: "unicode_db \<Rightarrow> rx list \<Rightarrow> pystr \<Rightarrow> ligne_immeuble list" where
  "lignes_loop U [] immeubles_text = []"
| "lignes_loop U (ligne_pattern # patterns) immeubles_text =
     (case map (ligne_of U immeubles_text) (re_finditer U fl_M ligne_pattern immeubles_text) of
        [] \<Rightarrow> lignes_loop U patterns immeubles_text
      | l # ls \<Rightarrow> l # ls)"

definition extraire_immeubles :: "unicode_db \<Rightarrow> pystr \<Rightarrow> immeubles_mut option" where
  "extraire_immeubles U contenu' =
     (let immeubles_text = first_group1 U fl_IS immeubles_patterns contenu'
      in if immeubles_text = [] then None
         else (case lignes_loop U ligne_patterns immeubles_text of
                 [] \<Rightarrow> None
               | premiere_ligne # lignes \<Rightarrow>
                   Some \<lparr>im_beneficiaire_numero = li_beneficiaire_numero premiere_ligne,
                         im_droits = li_droits premiere_ligne,
                         im_commune = li_commune premiere_ligne,
                         im_designation_cadastrale = li_designation_cadastrale premiere_ligne,
                         im_volume = [],
                         im_lots = fromkeys (concat (map li_lots (premiere_ligne # lignes))),
                         lignes_detaillees = premiere_ligne # lignes\<rparr>))"

text \<open>\<^verbatim>\<open>[0-9\s,\.]+\s*EUR\<close> after one of the four labels of an amount.\<close>

definition rx_prix_eur :: rx where
  "rx_prix_eur = seqs [plus (Cls [CRange 48 57, CSpace, CChar 44, CChar 46]), star ws, lit ''EUR'']"

definition montant_patterns :: "rx list" where
  "montant_patterns =
     [seqs [lits (ascii ''Prix/'' @ [233] @ ascii ''valuation''), star ws, lit '':'', star ws, Grp 1 rx_prix_eur],
      seqs [lit ''Prix'', star ws, lit '':'', star ws, Grp 1 rx_prix_eur],
      seqs [lits ([201] @ ascii ''valuation''), star ws, lit '':'', star ws, Grp 1 rx_prix_eur],
      seqs [lit ''Montant'', star ws, lit '':'', star ws, Grp 1 rx_prix_eur]]"

definition extraire_mutations :: "unicode_db \<Rightarrow> pystr \<Rightarrow> mutations_data" where
  "extraire_mutations U contenu' =
     (if contenu' = [] then
        \<lparr>disposant_donateur = [], beneficiaire_donataire = [], immeubles = None, montant = []\<rparr>
      else
        \<lparr>disposant_donateur = extraire_personnes U disposant_patterns simple_disposant contenu',
         beneficiaire_donataire = extraire_personnes U beneficiaire_patterns simple_beneficiaire contenu',
         immeubles = extraire_immeubles U contenu',
         montant = first_group1 U fl_I montant_patterns contenu'\<rparr>)"

record mutation =
  m_numero_ordre :: nat
  m_date_depot :: pystr
  m_date_acte :: pystr
  m_nature_acte :: pystr
  m_reference_enliassement :: pystr
  mutations :: mutations_data

definition est_mutation_candidate :: "unicode_db \<Rightarrow> formalite \<Rightarrow> bool" where
  "est_mutation_candidate U f =
     (\<not> py_in HYPOTHEQUE (upper U (nature_acte_redacteur f)) \<and>
      \<not> py_in RADIATION (upper U (nature_acte_redacteur f)))"

definition mutation_of :: "formalite \<Rightarrow> mutations_data \<Rightarrow> mutation" where
  "mutation_of f mutations_data' =
     \<lparr>m_numero_ordre = numero_ordre f,
      m_date_depot = date_depot f,
      m_date_acte = date_acte f,
      m_nature_acte = nature_acte_redacteur f,
      m_reference_enliassement = reference_enliassement f,
      mutations = mutations_data'\<rparr>"

fun analyser_mutations :: "unicode_db \<Rightarrow> formalite list \<Rightarrow> mutation list" where
  "analyser_mutations U [] = []"
| "analyser_mutations U (f # fs) =
     (if est_mutation_candidate U f then
        (let mutations_data' = extraire_mutations U (contenu f)
         in if disposant_donateur mutations_data' \<noteq> [] \<or>
               beneficiaire_donataire mutations_data' \<noteq> [] \<or>
               immeubles mutations_data' \<noteq> None
            then mutation_of f mutations_data' # analyser_mutations U fs
            else analyser_mutations U fs)
      else analyser_mutations U fs)"


section \<open>ReferencePropertyExtractor\<close>

text \<open>\<^verbatim>\<open>int(s)\<close> in base ten: surrounding whitespace, a sign, then decimal digits that
  single underscores may separate; \<open>None\<close> stands for \<^verbatim>\<open>ValueError\<close>. (The limit
  that recent interpreters put on the number of digits is not modelled.)\<close>

fun int_digits :: "unicode_db \<Rightarrow> nat \<Rightarrow> pystr \<Rightarrow> nat option" where
  "int_digits U acc [] = Some acc"
| "int_digits U acc [c] =
     (case decimal_value U c of Some d \<Rightarrow> Some (10 * acc + d) | None \<Rightarrow> None)"
| "int_digits U acc (c # c' # cs) =
     (case decimal_value U c of
        Some d \<Rightarrow> int_digits U (10 * acc + d) (c' # cs)
      | None \<Rightarrow>
          if c = 95 then
            (case decimal_value U c' of
               Some d \<Rightarrow> int_digits U (10 * acc + d) cs
             | None \<Rightarrow> None)
          else None)"

definition int_unsigned :: "unicode_db \<Rightarrow> pystr \<Rightarrow> nat option" where
  "int_unsigned U s =
     (case s of
        [] \<Rightarrow> None
      | c # cs \<Rightarrow> (case decimal_value U c of Some d \<Rightarrow> int_digits U d cs | None \<Rightarrow> None))"

definition py_int :: "unicode_db \<Rightarrow> pystr \<Rightarrow> int option" where
  "py_int U s =
     (case strip s of
        [] \<Rightarrow> None
      | c # cs \<Rightarrow>
          if c = 43 then map_option int (int_unsigned U cs)
          else if c = 45 then map_option (\<lambda>n. - int n) (int_unsigned U cs)
          else map_option int (int_unsigned U (c # cs)))"

text \<open>\<^verbatim>\<open>str(n)\<close> of an integer.\<close>

fun digits_of :: "nat \<Rightarrow> pystr" where
  "digits_of n = (if n < 10 then [48 + n] else digits_of (n div 10) @ [48 + n mod 10])"

definition py_str :: "int \<Rightarrow> pystr" where
  "py_str i = (if i < 0 then 45 # digits_of (nat (- i)) else digits_of (nat i))"

text \<open>A field of the table that is a string or a list of strings.\<close>

datatype champ = Scalaire pystr | Liste "pystr list"

record immeuble =
  code :: pystr
  commune :: pystr
  designation_cadastrale :: pystr
  volume :: champ
  lot :: champ
  page :: nat

text \<open>A cell of a table grid is a string or \<^verbatim>\<open>None\<close>.\<close>

type_synonym cell = "pystr option"

definition truthy :: "cell \<Rightarrow> bool" where
  "truthy c = (case c of None \<Rightarrow> False | Some s \<Rightarrow> s \<noteq> [])"

definition cell_at :: "cell list \<Rightarrow> nat \<Rightarrow> pystr" where
  "cell_at data_row i =
     (if i < length data_row then
        (case data_row ! i of None \<Rightarrow> [] | Some s \<Rightarrow> if s \<noteq> [] then strip s else [])
      else [])"

text \<open>\<^verbatim>\<open>' '.join(str(cell) for cell in row if cell)\<close>\<close>

definition row_text :: "cell list \<Rightarrow> pystr" where
  "row_text row = join (ascii '' '') (map the (filter truthy row))"

definition est_entete :: "unicode_db \<Rightarrow> cell list \<Rightarrow> bool" where
  "est_entete U row =
     list_ex (\<lambda>keyword. py_in keyword (upper U (row_text row)))
       [ascii ''CODE'', ascii ''COMMUNE'', ascii ''DESIGNATION'']"

text \<open>\<^verbatim>\<open>[x.strip() for x in s.split('\n') if x.strip()]\<close>\<close>

definition lignes_non_vides :: "pystr \<Rightarrow> pystr list" where
  "lignes_non_vides s = filter (\<lambda>l. l \<noteq> []) (map strip (py_split [10] s))"

text \<open>One line of a volume cell: \<^verbatim>\<open>"A \`a B"\<close> with two integers becomes the numbers
  from \<open>A\<close> to \<open>B\<close>; anything else is kept.\<close>

definition a_grave :: pystr where
  "a_grave = [32, 224, 32]"

definition volume_part_of :: "unicode_db \<Rightarrow> pystr \<Rightarrow> pystr list" where
  "volume_part_of U volume_part =
     (if py_in a_grave volume_part then
        (case py_split a_grave volume_part of
           [debut, fin] \<Rightarrow>
             (case py_int U (strip debut) of
                None \<Rightarrow> [volume_part]
              | Some start \<Rightarrow>
                  (case py_int U (strip fin) of
                     None \<Rightarrow> [volume_part]
                   | Some end' \<Rightarrow> map py_str [start..end']))
         | _ \<Rightarrow> [volume_part])
      else [volume_part])"

definition lot_of :: "pystr \<Rightarrow> champ" where
  "lot_of s = (if s \<noteq> [] \<and> py_in [10] s then Liste (lignes_non_vides s) else Scalaire s)"

definition volume_of :: "unicode_db \<Rightarrow> pystr \<Rightarrow> champ" where
  "volume_of U s =
     (if s \<noteq> [] \<and> py_in [10] s
      then Liste (concat (map (volume_part_of U) (lignes_non_vides s)))
      else Scalaire s)"

definition immeuble_of :: "unicode_db \<Rightarrow> nat \<Rightarrow> cell list \<Rightarrow> immeuble" where
  "immeuble_of U page_num data_row =
     \<lparr>code = cell_at data_row 0,
      commune = cell_at data_row 1,
      designation_cadastrale = cell_at data_row 2,
      volume = volume_of U (cell_at data_row 3),
      lot = lot_of (cell_at data_row 4),
      page = page_num\<rparr>"

text \<open>The rows after a header row: an empty row is skipped, and a row is kept when it
  has a code or a commune.\<close>

fun data_rows :: "unicode_db \<Rightarrow> nat \<Rightarrow> cell list list \<Rightarrow> immeuble list" where
  "data_rows U page_num [] = []"
| "data_rows U page_num (data_row # rows) =
     (if data_row = [] \<or> \<not> list_ex truthy data_row then data_rows U page_num rows
      else if code (immeuble_of U page_num data_row) \<noteq> [] \<or> commune (immeuble_of U page_num data_row) \<noteq> []
           then immeuble_of U page_num data_row # data_rows U page_num rows
           else data_rows U page_num rows)"

text \<open>Every row of a table that looks like a header is followed by the reading of all
  the rows after it.\<close>

fun table_rows :: "unicode_db \<Rightarrow> nat \<Rightarrow> cell list list \<Rightarrow> immeuble list" where
  "table_rows U page_num [] = []"
| "table_rows U page_num (row # rows) =
     (if row \<noteq> [] \<and> est_entete U row
      then data_rows U page_num rows @ table_rows U page_num rows
      else table_rows U page_num rows)"

definition extract_tableau_derniere_page :: "unicode_db \<Rightarrow> nat \<Rightarrow> cell list list list \<Rightarrow> immeuble list" where
  "extract_tableau_derniere_page U page_num tables = concat (map (table_rows U page_num) tables)"


section \<open>OwnershipReconstructor\<close>

text \<open>
  A Python set of strings is a list without repetition; the order of the list has no
  meaning. The order in which a \<^verbatim>\<open>for\<close> loop visits a set depends on the hashes of
  the strings, which change from one run of the interpreter to the next: it is the
  parameter \<open>h\<close> of the model, which returns the elements of a set in the order of the
  visit.
\<close>

type_synonym set_order = "pystr list \<Rightarrow> pystr list"

definition valid_order :: "set_order \<Rightarrow> bool" where
  "valid_order h = (\<forall>xs. mset (h xs) = mset xs)"

definition IMMEUBLE_ENTIER :: pystr where
  "IMMEUBLE_ENTIER = ascii ''IMMEUBLE_ENTIER''"

record info_lot =
  proprietaire :: personne
  droits :: pystr
  date_acquisition :: pystr
  nature_acte :: pystr
  numero_ordre_mutation :: nat

record ref_immeuble =
  r_commune :: pystr
  r_designation_cadastrale :: pystr
  r_code :: pystr

record propriete =
  p_immeuble :: ref_immeuble
  p_proprietaire :: personne
  p_lots :: "pystr list"
  p_droits :: pystr
  p_date_acquisition :: pystr

text \<open>The reference lots of the first property of the last page.\<close>

definition lots_ref_initial :: "immeuble \<Rightarrow> pystr list" where
  "lots_ref_initial immeuble_ref =
     (case lot immeuble_ref of
        Scalaire lots_immeuble \<Rightarrow> if strip lots_immeuble \<noteq> [] then [lots_immeuble] else []
      | Liste lots_immeuble \<Rightarrow> remdups lots_immeuble)"

text \<open>The fields of the property table of a mutation, \<^verbatim>\<open>.get\<close> with its default for
  the empty dictionary.\<close>

definition mut_commune :: "mutation \<Rightarrow> pystr" where
  "mut_commune m = (case immeubles (mutations m) of None \<Rightarrow> [] | Some im \<Rightarrow> im_commune im)"

definition mut_designation :: "mutation \<Rightarrow> pystr" where
  "mut_designation m = (case immeubles (mutations m) of None \<Rightarrow> [] | Some im \<Rightarrow> im_designation_cadastrale im)"

definition mut_lots :: "mutation \<Rightarrow> pystr list" where
  "mut_lots m = (case immeubles (mutations m) of None \<Rightarrow> [] | Some im \<Rightarrow> im_lots im)"

definition mut_droits :: "mutation \<Rightarrow> pystr" where
  "mut_droits m = (case immeubles (mutations m) of None \<Rightarrow> [] | Some im \<Rightarrow> im_droits im)"

definition mut_lignes :: "mutation \<Rightarrow> ligne_immeuble list" where
  "mut_lignes m = (case immeubles (mutations m) of None \<Rightarrow> [] | Some im \<Rightarrow> lignes_detaillees im)"

text \<open>\<^verbatim>\<open>lots_ref.update(lots_mutation)\<close>\<close>

definition set_update :: "pystr list \<Rightarrow> pystr list \<Rightarrow> pystr list" where
  "set_update lots_ref lots_mutation = lots_ref @ filter (\<lambda>x. x \<notin> set lots_ref) (remdups lots_mutation)"

fun lots_des_mutations :: "(mutation \<Rightarrow> bool) \<Rightarrow> mutation list \<Rightarrow> pystr list \<Rightarrow> pystr list" where
  "lots_des_mutations ok [] lots_ref = lots_ref"
| "lots_des_mutations ok (m # ms) lots_ref =
     lots_des_mutations ok ms (if ok m then set_update lots_ref (mut_lots m) else lots_ref)"

definition meme_commune :: "unicode_db \<Rightarrow> pystr \<Rightarrow> mutation \<Rightarrow> bool" where
  "meme_commune U commune_ref m = py_in (upper U (mut_commune m)) (upper U commune_ref)"

definition meme_immeuble :: "unicode_db \<Rightarrow> pystr \<Rightarrow> pystr \<Rightarrow> mutation \<Rightarrow> bool" where
  "meme_immeuble U commune_ref designation_ref m =
     (meme_commune U commune_ref m \<and> mut_designation m = designation_ref)"

text \<open>The reference lots: those of the property; with none, the lots of the mutations of
  the same commune and cadastral designation; with none again, those of the mutations of
  the same commune.\<close>

definition lots_ref_of :: "unicode_db \<Rightarrow> mutation list \<Rightarrow> immeuble \<Rightarrow> pystr list" where
  "lots_ref_of U mutations' immeuble_ref =
     (let lots_ref = lots_ref_initial immeuble_ref
      in if lots_ref \<noteq> [] then lots_ref
         else
           (let lots_ref' =
                  lots_des_mutations
                    (meme_immeuble U (commune immeuble_ref) (designation_cadastrale immeuble_ref))
                    mutations' []
            in if lots_ref' \<noteq> [] then lots_ref'
               else lots_des_mutations (meme_commune U (commune immeuble_ref)) mutations' []))"

definition mutations_triees :: "mutation list \<Rightarrow> mutation list" where
  "mutations_triees mutations' = sorted_reverse (\<lambda>x. convertir_date_pour_tri (m_date_depot x)) mutations'"

text \<open>The assignments, a dictionary from lot to owner in insertion order.\<close>

type_synonym propriete_lots = "(pystr \<times> info_lot) list"

definition info_of :: "mutation \<Rightarrow> personne \<Rightarrow> pystr \<Rightarrow> info_lot" where
  "info_of m beneficiaire droits' =
     \<lparr>proprietaire = \<lparr>numero = numero beneficiaire, designation = designation beneficiaire,
                       date_naissance = date_naissance beneficiaire\<rparr>,
      droits = droits',
      date_acquisition = m_date_depot m,
      nature_acte = m_nature_acte m,
      numero_ordre_mutation = m_numero_ordre m\<rparr>"

text \<open>\<^verbatim>\<open>for lot in lots: if lot not in propriete_lots: propriete_lots[lot] = info\<close>\<close>

fun attribuer :: "info_lot \<Rightarrow> pystr list \<Rightarrow> propriete_lots \<Rightarrow> propriete_lots" where
  "attribuer info [] pl = pl"
| "attribuer info (lot' # lots) pl =
     attribuer info lots (if lot' \<in> set (map fst pl) then pl else pl @ [(lot', info)])"

fun trouver_beneficiaire :: "pystr \<Rightarrow> personne list \<Rightarrow> personne option" where
  "trouver_beneficiaire numero_beneficiaire [] = None"
| "trouver_beneficiaire numero_beneficiaire (beneficiaire # beneficiaires) =
     (if numero beneficiaire = numero_beneficiaire then Some beneficiaire
      else trouver_beneficiaire numero_beneficiaire beneficiaires)"

definition inter :: "pystr list \<Rightarrow> pystr list \<Rightarrow> pystr list" where
  "inter a b = filter (\<lambda>x. x \<in> set b) a"

text \<open>The detailed lines of a mutation, each with its own beneficiary and rights.\<close>

fun attribuer_lignes :: "set_order \<Rightarrow> mutation \<Rightarrow> pystr list \<Rightarrow> ligne_immeuble list \<Rightarrow> propriete_lots \<Rightarrow> propriete_lots" where
  "attribuer_lignes h m lots_concernes [] pl = pl"
| "attribuer_lignes h m lots_concernes (ligne # lignes) pl =
     (let lots_ligne_concernes =
            (if IMMEUBLE_ENTIER \<in> set lots_concernes then [IMMEUBLE_ENTIER]
             else inter lots_concernes (li_lots ligne))
      in attribuer_lignes h m lots_concernes lignes
           (if lots_ligne_concernes \<noteq> [] then
              (case trouver_beneficiaire (li_beneficiaire_numero ligne) (beneficiaire_donataire (mutations m)) of
                 Some beneficiaire \<Rightarrow> attribuer (info_of m beneficiaire (li_droits ligne)) (h lots_ligne_concernes) pl
               | None \<Rightarrow> pl)
            else pl))"

definition concerne_immeuble :: "unicode_db \<Rightarrow> pystr \<Rightarrow> pystr \<Rightarrow> mutation \<Rightarrow> bool" where
  "concerne_immeuble U commune_ref designation_ref m =
     (if mut_commune m \<noteq> [] \<and> mut_designation m \<noteq> []
      then meme_immeuble U commune_ref designation_ref m
      else True)"

definition lots_concernes_of :: "pystr list \<Rightarrow> mutation \<Rightarrow> pystr list" where
  "lots_concernes_of lots_ref m =
     (if lots_ref = [] \<and> mut_lots m = [] then [IMMEUBLE_ENTIER] else inter lots_ref (mut_lots m))"

text \<open>The body of the loop for one mutation.\<close>

definition traiter_mutation :: "unicode_db \<Rightarrow> set_order \<Rightarrow> pystr \<Rightarrow> pystr \<Rightarrow> pystr list \<Rightarrow> mutation \<Rightarrow> propriete_lots \<Rightarrow> propriete_lots" where
  "traiter_mutation U h commune_ref designation_ref lots_ref m pl =
     (if concerne_immeuble U commune_ref designation_ref m then
        (let lots_concernes = lots_concernes_of lots_ref m
         in if lots_concernes \<noteq> [] then
              (case beneficiaire_donataire (mutations m) of
                 [] \<Rightarrow> pl
               | beneficiaire # autres \<Rightarrow>
                   if mut_lignes m \<noteq> [] then attribuer_lignes h m lots_concernes (mut_lignes m) pl
                   else attribuer (info_of m beneficiaire (mut_droits m)) (h lots_concernes) pl)
            else pl)
      else pl)"

text \<open>The test that ends the loop.\<close>

definition tous_attribues :: "pystr list \<Rightarrow> propriete_lots \<Rightarrow> bool" where
  "tous_attribues lots_ref pl =
     (if lots_ref \<noteq> [] then set (map fst pl) = set lots_ref
      else IMMEUBLE_ENTIER \<in> set (map fst pl))"

text \<open>The loop over the sorted mutations; the result is the assignments and the number
  of mutations the loop has processed (one progress line is printed for each).\<close>

fun boucle :: "unicode_db \<Rightarrow> set_order \<Rightarrow> pystr \<Rightarrow> pystr \<Rightarrow> pystr list \<Rightarrow> mutation list \<Rightarrow> propriete_lots \<Rightarrow> propriete_lots \<times> nat" where
  "boucle U h commune_ref designation_ref lots_ref [] pl = (pl, 0)"
| "boucle U h commune_ref designation_ref lots_ref (m # ms) pl =
     (let pl' = traiter_mutation U h commune_ref designation_ref lots_ref m pl
      in if tous_attribues lots_ref pl' then (pl', 1)
         else (case boucle U h commune_ref designation_ref lots_ref ms pl' of
                 (pl'', n) \<Rightarrow> (pl'', n + 1)))"

text \<open>The grouping by owner, a dictionary in insertion order keyed by the name and the
  birth date joined by an underscore.\<close>

record groupe =
  g_proprietaire :: personne
  g_lots :: "pystr list"
  g_droits :: pystr
  g_date :: pystr

definition prop_key :: "info_lot \<Rightarrow> pystr" where
  "prop_key info = designation (proprietaire info) @ ascii ''_'' @ date_naissance (proprietaire info)"

fun grouper_un :: "pystr \<Rightarrow> info_lot \<Rightarrow> (pystr \<times> groupe) list \<Rightarrow> (pystr \<times> groupe) list" where
  "grouper_un lot' info [] =
     [(prop_key info,
       \<lparr>g_proprietaire = proprietaire info, g_lots = [lot'], g_droits = droits info,
        g_date = date_acquisition info\<rparr>)]"
| "grouper_un lot' info ((k, g) # gs) =
     (if k = prop_key info
      then (k, g\<lparr>g_lots := g_lots g @ [lot'],
                 g_date := (if date_acquisition info > g_date g then date_acquisition info else g_date g)\<rparr>) # gs
      else (k, g) # grouper_un lot' info gs)"

fun grouper :: "propriete_lots \<Rightarrow> (pystr \<times> groupe) list \<Rightarrow> (pystr \<times> groupe) list" where
  "grouper [] gs = gs"
| "grouper ((lot', info) # pl) gs = grouper pl (grouper_un lot' info gs)"

definition propriete_of :: "immeuble \<Rightarrow> groupe \<Rightarrow> propriete" where
  "propriete_of immeuble_ref g =
     \<lparr>p_immeuble = \<lparr>r_commune = commune immeuble_ref,
                     r_designation_cadastrale = designation_cadastrale immeuble_ref,
                     r_code = code immeuble_ref\<rparr>,
      p_proprietaire = g_proprietaire g,
      p_lots = (if IMMEUBLE_ENTIER \<in> set (g_lots g) then [ascii ''Immeuble entier'']
                else sort (filter (\<lambda>l. l \<noteq> IMMEUBLE_ENTIER) (g_lots g))),
      p_droits = g_droits g,
      p_date_acquisition = g_date g\<rparr>"

definition propriete_inconnue :: "immeuble \<Rightarrow> pystr list \<Rightarrow> propriete" where
  "propriete_inconnue immeuble_ref lots_non_attribues =
     \<lparr>p_immeuble = \<lparr>r_commune = commune immeuble_ref,
                     r_designation_cadastrale = designation_cadastrale immeuble_ref,
                     r_code = code immeuble_ref\<rparr>,
      p_proprietaire = \<lparr>numero = [], designation = ascii ''PROPRIETAIRE INCONNU'', date_naissance = []\<rparr>,
      p_lots = sort lots_non_attribues,
      p_droits = ascii ''INCONNU'',
      p_date_acquisition = []\<rparr>"

definition resultat_final :: "immeuble \<Rightarrow> pystr list \<Rightarrow> propriete_lots \<Rightarrow> propriete list" where
  "resultat_final immeuble_ref lots_ref pl =
     map (\<lambda>(k, g). propriete_of immeuble_ref g) (grouper pl []) @
     (let lots_non_attribues = filter (\<lambda>l. l \<notin> set (map fst pl)) lots_ref
      in if lots_non_attribues \<noteq> [] then [propriete_inconnue immeuble_ref lots_non_attribues] else [])"

text \<open>The assignments and the number of mutations processed, for the first property of
  the last page.\<close>

definition reconstituer_lots :: "unicode_db \<Rightarrow> set_order \<Rightarrow> mutation list \<Rightarrow> immeuble \<Rightarrow> propriete_lots \<times> nat" where
  "reconstituer_lots U h mutations' immeuble_ref =
     boucle U h (commune immeuble_ref) (designation_cadastrale immeuble_ref)
       (lots_ref_of U mutations' immeuble_ref) (mutations_triees mutations') []"

definition reconstituer_propriete :: "unicode_db \<Rightarrow> set_order \<Rightarrow> mutation list \<Rightarrow> immeuble list \<Rightarrow> propriete list" where
  "reconstituer_propriete U h mutations' immeubles' =
     (case immeubles' of
        [] \<Rightarrow> []
      | immeuble_ref # autres \<Rightarrow>
          if mutations' = [] then []
          else resultat_final immeuble_ref (lots_ref_of U mutations' immeuble_ref)
                 (fst (reconstituer_lots U h mutations' immeuble_ref)))"

section \<open>ExtractionPipeline\<close>

record statistiques =
  nombre_total_formalites :: nat
  nombre_hypotheques_actives :: nat
  nombre_mutations :: nat
  comptage_par_type :: "(pystr \<times> nat) list"
  date_extraction :: pystr
  fichier_source :: pystr
  propriete_reconstituee :: bool

record structure_finale =
  sf_formalites :: "formalite list"
  sf_hypotheques_actives :: "hypotheque_active list"
  sf_mutations :: "mutation list"
  sf_statistiques :: statistiques
  sf_propriete_actuelle :: "propriete list"

text \<open>
  \<^verbatim>\<open>extraction_complete_ehf\<close>, from what the PDF readers return: the text of every
  page, the number of pages and the table grids of the last page. The result is the
  content of the two JSON documents.
\<close>

definition extraction_complete_ehf :: "unicode_db \<Rightarrow> set_order \<Rightarrow> pystr \<Rightarrow> pystr list \<Rightarrow> nat \<Rightarrow> cell list list list \<Rightarrow> structure_finale \<times> immeuble list" where
  "extraction_complete_ehf U h pdf_name pages total_pages tables =
     (let formalites = extract_formalites U (full_text_of pages);
          hypotheques_actives = analyser_hypotheques_actives U formalites;
          mutations' = analyser_mutations U formalites;
          immeubles' = extract_tableau_derniere_page U total_pages tables;
          propriete_actuelle = reconstituer_propriete U h mutations' immeubles'
      in (\<lparr>sf_formalites = formalites,
           sf_hypotheques_actives = hypotheques_actives,
           sf_mutations = mutations',
           sf_statistiques =
             \<lparr>nombre_total_formalites = length formalites,
              nombre_hypotheques_actives = length hypotheques_actives,
              nombre_mutations = length mutations',
              comptage_par_type = comptage_trie U formalites,
              date_extraction = ascii ''2024-10-30'',
              fichier_source = pdf_name,
              propriete_reconstituee = (propriete_actuelle \<noteq> [])\<rparr>,
           sf_propriete_actuelle = propriete_actuelle\<rparr>,
          immeubles'))"


text \<open>Two views of the dictionary of owners, for the proofs: the groups without their
  lots, and the lots of the group of one key.\<close>

definition sans_lots :: "(pystr \<times> groupe) list \<Rightarrow> (pystr \<times> personne \<times> pystr \<times> pystr) list" where
  "sans_lots gs = map (\<lambda>(k, g). (k, g_proprietaire g, g_droits g, g_date g)) gs"

definition lots_de :: "pystr \<Rightarrow> (pystr \<times> groupe) list \<Rightarrow> pystr list" where
  "lots_de k gs = (case map_of gs k of None \<Rightarrow> [] | Some g \<Rightarrow> g_lots g)"

section \<open>Example inputs\<close>

definition exemple_personne :: "string \<Rightarrow> string \<Rightarrow> personne" where
  "exemple_personne n d = \<lparr>numero = ascii n, designation = ascii d, date_naissance = ascii ''01/01/1970''\<rparr>"

definition exemple_ligne :: "string \<Rightarrow> string list \<Rightarrow> ligne_immeuble" where
  "exemple_ligne n ls =
     \<lparr>li_beneficiaire_numero = ascii n, li_droits = ascii ''TP'', li_commune = ascii ''PARIS'',
      li_designation_cadastrale = ascii ''CJ 42'', li_volume = [], li_lots = map ascii ls\<rparr>"

definition exemple_immeubles :: "string list \<Rightarrow> ligne_immeuble list \<Rightarrow> immeubles_mut" where
  "exemple_immeubles ls lignes =
     \<lparr>im_beneficiaire_numero = ascii ''1'', im_droits = ascii ''TP'', im_commune = ascii ''PARIS'',
      im_designation_cadastrale = ascii ''CJ 42'', im_volume = [], im_lots = map ascii ls,
      lignes_detaillees = lignes\<rparr>"

text \<open>A sale of the lots \<open>ls\<close> of the parcel CJ 42 in Paris to one beneficiary.\<close>

definition exemple_mutation :: "nat \<Rightarrow> pystr \<Rightarrow> string \<Rightarrow> string list \<Rightarrow> mutation" where
  "exemple_mutation n date beneficiaire ls =
     \<lparr>m_numero_ordre = n, m_date_depot = date, m_date_acte = [], m_nature_acte = ascii ''VENTE'',
      m_reference_enliassement = [],
      mutations =
        \<lparr>disposant_donateur = [], beneficiaire_donataire = [exemple_personne ''1'' beneficiaire],
         immeubles = Some (exemple_immeubles ls [exemple_ligne ''1'' ls]), montant = []\<rparr>\<rparr>"

definition exemple_immeuble_ref :: "string list \<Rightarrow> immeuble" where
  "exemple_immeuble_ref ls =
     \<lparr>code = ascii ''75'', commune = ascii ''PARIS 15'', designation_cadastrale = ascii ''CJ 42'',
      volume = Scalaire [], lot = Liste (map ascii ls), page = 3\<rparr>"

text \<open>A formality with a deposit date and an act text.\<close>

definition exemple_formalite :: "nat \<Rightarrow> pystr \<Rightarrow> pystr \<Rightarrow> formalite" where
  "exemple_formalite n date nature =
     \<lparr>numero_ordre = n, date_depot = date, date_acte = non_trouve,
      contenu = ascii ''Date de depot: '' @ date, nature_acte_redacteur = nature,
      reference_enliassement = []\<rparr>"

text \<open>A document of one formality: a sale, whose text names creditors and a debtor and
  has a table of one disposing party. \<open>formalite_implicite\<close> is the formality that
  \<open>extract_formalites\<close> makes of it.\<close>

definition texte_implicite :: pystr where
  "texte_implicite =
     ascii ''Date de depot: Nature de l'' @ [39] @ ascii ''acte: VENTE'' @ [10] @
     ascii ''Cr'' @ [233] @ ascii ''anciers D'' @ [233] @ ascii ''biteur'' @ [10] @
     ascii ''Disposant'' @ [10] @ ascii ''1 AB 01/01/1970''"

definition contenu_implicite :: pystr where
  "contenu_implicite =
     ascii ''Nature de l'' @ [39] @ ascii ''acte: VENTE'' @ [10] @
     ascii ''Cr'' @ [233] @ ascii ''anciers D'' @ [233] @ ascii ''biteur'' @ [10] @
     ascii ''Disposant'' @ [10] @ ascii ''1 AB 01/01/1970''"

definition formalite_implicite :: formalite where
  "formalite_implicite =
     \<lparr>numero_ordre = 1, date_depot = ascii ''01/01/1970'', date_acte = non_trouve,
      contenu = ascii ''Date de depot: '' @ contenu_implicite,
      nature_acte_redacteur = ascii ''VENTE'', reference_enliassement = []\<rparr>"

section \<open>Evaluation\<close>

text \<open>Congruence rules that keep the simplifier out of the text and of the patterns while
  it runs the matcher on a concrete input.\<close>

lemma run_cong: "st = st' \<Longrightarrow> run U F stk st = run U F stk st'"
  by simp

lemma MState_cong: "p = p' \<Longrightarrow> l = l' \<Longrightarrow> cp = cp' \<Longrightarrow> MState p l s pv cp = MState p' l' s pv cp'"
  by simp

lemma eat_cong: "eat st = eat st"
  by simp

lemma at_eol_cong: "at_eol F s = at_eol F s"
  by simp

lemma search_from_cong:
  "p = p' \<Longrightarrow> l = l' \<Longrightarrow> search_from U F r p l prev s = search_from U F r p' l' prev s"
  by simp

lemma iter_from_cong:
  "p = p' \<Longrightarrow> l = l' \<Longrightarrow> k = k' \<Longrightarrow> iter_from U F r p l prev s k = iter_from U F r p' l' prev s k'"
  by simp

lemma match_at_cong:
  "p = p' \<Longrightarrow> l = l' \<Longrightarrow> match_at U F r p l prev s = match_at U F r p' l' prev s"
  by simp

lemmas rx_congs =
  run_cong MState_cong eat_cong at_eol_cong search_from_cong iter_from_cong match_at_cong

lemmas text_defs =
  ascii_def non_trouve_def isspace_def strip_def py_split_def zfill2_def len_def slice_def
  upper_def upper_char_def tolower_def toupper_def decimal_value_def is_decimal_def
  isdigit_def isdigit_char_def latin1_db_def fromkeys_def

lemmas rx_defs =
  no_flags_def fl_I_def fl_IS_def fl_M_def iscased_def ignorecase_fixes_def lower_eq_def
  lit_match_def cls_match_def match_at_def re_search_def re_finditer_def re_split_def re_sub_def
  group_def group_str_def re_findall0_def re_findall1_def search_group1_def
  seqs_def lits_def lit_def star_def plus_def opt_def lazy_star_def lazy_plus_def times_def
  ws_def digit_def rx_date_def AZ_def

lemmas exemple_defs =
  exemple_personne_def exemple_ligne_def exemple_immeubles_def exemple_mutation_def
  exemple_immeuble_ref_def

section \<open>The sort of the mutations\<close>

text \<open>
  C2. The mutations are sorted by the key of \<open>convertir_date_pour_tri\<close> in descending
  order, and a date that is not DD/MM/YYYY is to sort last. The key of the not-found
  sentinel, which has no slash, is the sentinel itself: it is greater than the key of
  every date, so in the descending order a mutation without a date comes first, before
  a mutation of 2020. (A date with a slash that does not split into three parts gets the
  key 0000-00-00 and does sort last.)
\<close>

theorem not_found_date_sorts_first:
  "convertir_date_pour_tri non_trouve = non_trouve \<and>
   convertir_date_pour_tri (ascii ''01/01/2020'') = ascii ''2020-01-01'' \<and>
   convertir_date_pour_tri (ascii ''01/2020'') = ascii ''0000-00-00'' \<and>
   map m_date_depot
     (mutations_triees
        [exemple_mutation 1 (ascii ''01/01/2020'') ''X'' [''9''],
         exemple_mutation 2 non_trouve ''Y'' [''9'']])
   = [non_trouve, ascii ''01/01/2020'']"
  by (simp add: convertir_date_pour_tri_def mutations_triees_def sorted_reverse_def
        text_defs exemple_defs)


section \<open>Ownership reconstruction\<close>












text \<open>The definitions to unfold when the reconstruction runs on a concrete input.\<close>

lemmas recon_defs =
  reconstituer_lots_def reconstituer_propriete_def lots_ref_of_def lots_ref_initial_def
  mutations_triees_def sorted_reverse_def convertir_date_pour_tri_def
  traiter_mutation_def concerne_immeuble_def meme_immeuble_def meme_commune_def
  lots_concernes_of_def inter_def mut_commune_def mut_designation_def mut_lots_def
  mut_droits_def mut_lignes_def info_of_def tous_attribues_def IMMEUBLE_ENTIER_def
  resultat_final_def propriete_of_def propriete_inconnue_def prop_key_def



text \<open>
  C5. The loop stops as soon as every reference lot is assigned (with no reference lot:
  as soon as the whole-property sentinel is). If the loop over the sorted mutations
  \<open>ms\<close> returns after \<open>n\<close> mutations, its result is the state after exactly the first
  \<open>n\<close> mutations; when mutations are left (\<open>n < length ms\<close>) the test holds of that
  state, and it held after none of the mutations before: no later mutation is processed.
\<close>

theorem halts_when_all_assigned:
  "boucle U h c d lots_ref ms pl = (pl', n) \<Longrightarrow>
     n \<le> length ms \<and>
     pl' = foldl (\<lambda>acc m. traiter_mutation U h c d lots_ref m acc) pl (take n ms) \<and>
     (n < length ms \<longrightarrow> tous_attribues lots_ref pl') \<and>
     (\<forall>k. 0 < k \<and> k < n \<longrightarrow>
        \<not> tous_attribues lots_ref (foldl (\<lambda>acc m. traiter_mutation U h c d lots_ref m acc) pl (take k ms)))"
proof (induction ms arbitrary: pl pl' n)
  case Nil
  then show ?case by simp
next
  case (Cons m ms)
  define p1 where "p1 = traiter_mutation U h c d lots_ref m pl"
  show ?case
  proof (cases "tous_attribues lots_ref p1")
    case True
    then have "pl' = p1" "n = 1"
      using Cons.prems by (simp_all add: p1_def Let_def)
    then show ?thesis using True by (simp add: p1_def)
  next
    case False
    obtain pl'' n' where b: "boucle U h c d lots_ref ms p1 = (pl'', n')"
      by (cases "boucle U h c d lots_ref ms p1") blast
    then have eq: "pl' = pl''" "n = Suc n'"
      using Cons.prems False by (simp_all add: p1_def Let_def)
    from Cons.IH [OF b] have
      i1: "n' \<le> length ms" and
      i2: "pl'' = foldl (\<lambda>acc m. traiter_mutation U h c d lots_ref m acc) p1 (take n' ms)" and
      i3: "n' < length ms \<longrightarrow> tous_attribues lots_ref pl''" and
      i4: "\<forall>k. 0 < k \<and> k < n' \<longrightarrow>
             \<not> tous_attribues lots_ref (foldl (\<lambda>acc m. traiter_mutation U h c d lots_ref m acc) p1 (take k ms))"
      by blast+
    have later: "\<not> tous_attribues lots_ref
        (foldl (\<lambda>acc m. traiter_mutation U h c d lots_ref m acc) pl (take k (m # ms)))"
      if k: "0 < k" "k < n" for k
    proof (cases k)
      case 0
      then show ?thesis using k by simp
    next
      case (Suc j)
      show ?thesis
      proof (cases "j = 0")
        case True
        then show ?thesis using False Suc by (simp add: p1_def)
      next
        case nz: False
        then have "0 < j \<and> j < n'" using k Suc eq by simp
        then show ?thesis using i4 Suc by (simp add: p1_def)
      qed
    qed
    have a: "n \<le> length (m # ms)" using i1 eq by simp
    have b: "pl' = foldl (\<lambda>acc m. traiter_mutation U h c d lots_ref m acc) pl (take n (m # ms))"
      using i2 eq by (simp add: p1_def)
    have c: "n < length (m # ms) \<longrightarrow> tous_attribues lots_ref pl'"
      using i3 eq by simp
    show ?thesis using a b c later by blast
  qed
qed

theorem halts_when_all_assigned_witness:
  "snd (boucle latin1_db id (ascii ''PARIS 15'') (ascii ''CJ 42'') [ascii ''9'', ascii ''17'']
     [exemple_mutation 3 (ascii ''05/06/2020'') ''X'' [''9''],
      exemple_mutation 2 (ascii ''01/02/2010'') ''Y'' [''9'', ''17''],
      exemple_mutation 1 (ascii ''03/04/2000'') ''Z'' [''9'', ''17'']] []) = 2 \<and>
   tous_attribues [ascii ''9'', ascii ''17'']
     (fst (boucle latin1_db id (ascii ''PARIS 15'') (ascii ''CJ 42'') [ascii ''9'', ascii ''17'']
       [exemple_mutation 3 (ascii ''05/06/2020'') ''X'' [''9''],
        exemple_mutation 2 (ascii ''01/02/2010'') ''Y'' [''9'', ''17''],
        exemple_mutation 1 (ascii ''03/04/2000'') ''Z'' [''9'', ''17'']] []))"
proof -
  define P where "P =
     [(ascii ''9'', info_of (exemple_mutation 3 (ascii ''05/06/2020'') ''X'' [''9'']) (exemple_personne ''1'' ''X'') (ascii ''TP'')),
      (ascii ''17'', info_of (exemple_mutation 2 (ascii ''01/02/2010'') ''Y'' [''9'', ''17'']) (exemple_personne ''1'' ''Y'') (ascii ''TP''))]"
  have b: "boucle latin1_db id (ascii ''PARIS 15'') (ascii ''CJ 42'') [ascii ''9'', ascii ''17'']
     [exemple_mutation 3 (ascii ''05/06/2020'') ''X'' [''9''],
      exemple_mutation 2 (ascii ''01/02/2010'') ''Y'' [''9'', ''17''],
      exemple_mutation 1 (ascii ''03/04/2000'') ''Z'' [''9'', ''17'']] [] = (P, 2)"
    unfolding P_def by (simp add: recon_defs text_defs exemple_defs)
  have "(2::nat) < length
       [exemple_mutation 3 (ascii ''05/06/2020'') ''X'' [''9''],
        exemple_mutation 2 (ascii ''01/02/2010'') ''Y'' [''9'', ''17''],
        exemple_mutation 1 (ascii ''03/04/2000'') ''Z'' [''9'', ''17'']]
       \<longrightarrow> tous_attribues [ascii ''9'', ascii ''17''] P"
    using halts_when_all_assigned [OF b] by blast
  then have "tous_attribues [ascii ''9'', ascii ''17''] P"
    by simp
  then show ?thesis unfolding b by simp
qed



section \<open>Independence of the order in which sets are visited\<close>

text \<open>Two runs may visit the lots of a set in different orders. The dictionaries of
  assignments they build hold the same entries, with the same sequence of values: the
  lots of one visit all receive the same value.\<close>

lemma attribuer_filter:
  "distinct xs \<Longrightarrow>
   attribuer info xs pl = pl @ map (\<lambda>l. (l, info)) (filter (\<lambda>l. l \<notin> fst ` set pl) xs)"
proof (induction xs arbitrary: pl)
  case Nil
  then show ?case by simp
next
  case (Cons x xs)
  then have nx: "x \<notin> set xs" and dx: "distinct xs" by simp_all
  show ?case
  proof (cases "x \<in> fst ` set pl")
    case True
    then show ?thesis using Cons.IH [OF dx, of pl] by simp
  next
    case False
    have "filter (\<lambda>l. l \<notin> fst ` set (pl @ [(x, info)])) xs = filter (\<lambda>l. l \<notin> fst ` set pl) xs"
      using nx by (intro filter_cong) auto
    then show ?thesis using False Cons.IH [OF dx, of "pl @ [(x, info)]"] by simp
  qed
qed

lemma attribuer_rel:
  assumes "mset pl1 = mset pl2" "map snd pl1 = map snd pl2" "mset xs1 = mset xs2" "distinct xs1"
  shows "mset (attribuer info xs1 pl1) = mset (attribuer info xs2 pl2) \<and>
         map snd (attribuer info xs1 pl1) = map snd (attribuer info xs2 pl2)"
proof -
  have d2: "distinct xs2" using assms(3,4) by (metis mset_eq_imp_distinct_iff)
  have s: "set pl1 = set pl2" using assms(1) by (rule mset_eq_setD)
  let ?P = "\<lambda>l. l \<notin> fst ` set pl1"
  have f: "mset (filter ?P xs1) = mset (filter ?P xs2)"
    using assms(3) by (metis mset_filter)
  then have len: "length (filter ?P xs1) = length (filter ?P xs2)"
    by (metis size_mset)
  have m: "mset (map (\<lambda>l. (l, info)) (filter ?P xs1)) = mset (map (\<lambda>l. (l, info)) (filter ?P xs2))"
    using f by (metis mset_map)
  have sn: "map snd (map (\<lambda>l. (l, info)) ys) = replicate (length ys) info" for ys :: "pystr list"
    by (induction ys) auto
  have e: "map snd (map (\<lambda>l. (l, info)) (filter ?P xs1)) = map snd (map (\<lambda>l. (l, info)) (filter ?P xs2))"
    unfolding sn using len by simp
  have a1: "attribuer info xs1 pl1 = pl1 @ map (\<lambda>l. (l, info)) (filter ?P xs1)"
    by (rule attribuer_filter [OF assms(4)])
  have a2: "attribuer info xs2 pl2 = pl2 @ map (\<lambda>l. (l, info)) (filter ?P xs2)"
    unfolding s by (rule attribuer_filter [OF d2])
  show ?thesis
    unfolding a1 a2 using assms(1,2) m e by simp
qed

lemma valid_order_mset: "valid_order h \<Longrightarrow> mset (h xs) = mset xs"
  by (simp add: valid_order_def)

lemma valid_order_distinct: "valid_order h \<Longrightarrow> distinct xs \<Longrightarrow> distinct (h xs)"
  by (metis valid_order_mset mset_eq_imp_distinct_iff)

lemma attribuer_lignes_rel:
  assumes v: "valid_order h1" "valid_order h2" and d: "distinct lc"
  shows "mset pl1 = mset pl2 \<Longrightarrow> map snd pl1 = map snd pl2 \<Longrightarrow>
         mset (attribuer_lignes h1 m lc lignes pl1) = mset (attribuer_lignes h2 m lc lignes pl2) \<and>
         map snd (attribuer_lignes h1 m lc lignes pl1) = map snd (attribuer_lignes h2 m lc lignes pl2)"
proof (induction lignes arbitrary: pl1 pl2)
  case Nil
  then show ?case by simp
next
  case (Cons ligne lignes)
  define S where "S = (if IMMEUBLE_ENTIER \<in> set lc then [IMMEUBLE_ENTIER] else inter lc (li_lots ligne))"
  have dS: "distinct S" using d by (simp add: S_def inter_def)
  define step where "step = (\<lambda>h pl.
    if S \<noteq> [] then
      (case trouver_beneficiaire (li_beneficiaire_numero ligne) (beneficiaire_donataire (mutations m)) of
         Some beneficiaire \<Rightarrow> attribuer (info_of m beneficiaire (li_droits ligne)) (h S) pl
       | None \<Rightarrow> pl)
    else pl)"
  have unf: "attribuer_lignes h m lc (ligne # lignes) pl = attribuer_lignes h m lc lignes (step h pl)" for h pl
    unfolding step_def S_def by (simp add: Let_def)
  have ms: "mset (h1 S) = mset (h2 S)" using v by (simp add: valid_order_mset)
  have dh: "distinct (h1 S)" using v(1) dS by (rule valid_order_distinct)
  have r: "mset (step h1 pl1) = mset (step h2 pl2) \<and> map snd (step h1 pl1) = map snd (step h2 pl2)"
    unfolding step_def using Cons.prems attribuer_rel [OF Cons.prems ms dh]
    by (auto split: option.splits)
  show ?case unfolding unf using Cons.IH r by blast
qed

lemma traiter_mutation_rel:
  assumes v: "valid_order h1" "valid_order h2" and d: "distinct lr"
    and r: "mset pl1 = mset pl2" "map snd pl1 = map snd pl2"
  shows "mset (traiter_mutation U h1 c d' lr m pl1) = mset (traiter_mutation U h2 c d' lr m pl2) \<and>
         map snd (traiter_mutation U h1 c d' lr m pl1) = map snd (traiter_mutation U h2 c d' lr m pl2)"
proof -
  have dl: "distinct (lots_concernes_of lr m)"
    using d by (simp add: lots_concernes_of_def inter_def)
  have ms: "mset (h1 (lots_concernes_of lr m)) = mset (h2 (lots_concernes_of lr m))"
    using v by (simp add: valid_order_mset)
  have dh: "distinct (h1 (lots_concernes_of lr m))" using v(1) dl by (rule valid_order_distinct)
  show ?thesis
    unfolding traiter_mutation_def Let_def
    using r attribuer_lignes_rel [OF v dl r] attribuer_rel [OF r ms dh]
    by (auto split: list.splits)
qed

lemma tous_attribues_rel: "mset pl1 = mset pl2 \<Longrightarrow> tous_attribues lr pl1 = tous_attribues lr pl2"
  by (metis tous_attribues_def mset_eq_setD set_map)

lemma boucle_rel:
  assumes v: "valid_order h1" "valid_order h2" and d: "distinct lr"
  shows "mset pl1 = mset pl2 \<Longrightarrow> map snd pl1 = map snd pl2 \<Longrightarrow>
         mset (fst (boucle U h1 c d' lr ms pl1)) = mset (fst (boucle U h2 c d' lr ms pl2)) \<and>
         map snd (fst (boucle U h1 c d' lr ms pl1)) = map snd (fst (boucle U h2 c d' lr ms pl2)) \<and>
         snd (boucle U h1 c d' lr ms pl1) = snd (boucle U h2 c d' lr ms pl2)"
proof (induction ms arbitrary: pl1 pl2)
  case Nil
  then show ?case by simp
next
  case (Cons m ms)
  let ?p1 = "traiter_mutation U h1 c d' lr m pl1"
  let ?p2 = "traiter_mutation U h2 c d' lr m pl2"
  have r: "mset ?p1 = mset ?p2" "map snd ?p1 = map snd ?p2"
    using traiter_mutation_rel [OF v d Cons.prems] by simp_all
  have t: "tous_attribues lr ?p1 = tous_attribues lr ?p2"
    using r(1) by (rule tous_attribues_rel)
  show ?case
  proof (cases "tous_attribues lr ?p1")
    case True
    then show ?thesis using t r by (simp add: Let_def)
  next
    case False
    then have "\<not> tous_attribues lr ?p2" using t by simp
    then show ?thesis using False Cons.IH [OF r] by (auto simp: Let_def split: prod.splits)
  qed
qed


lemma distinct_set_update: "distinct lr \<Longrightarrow> distinct (set_update lr xs)"
  by (auto simp: set_update_def)

lemma distinct_lots_des_mutations: "distinct lr \<Longrightarrow> distinct (lots_des_mutations ok ms lr)"
  by (induction ms arbitrary: lr) (auto simp: distinct_set_update)

lemma distinct_lots_ref_of: "distinct (lots_ref_of U ms imm)"
  by (auto simp: lots_ref_of_def Let_def lots_ref_initial_def distinct_lots_des_mutations split: champ.splits)

lemma sans_lots_grouper_un:
  "sans_lots gs1 = sans_lots gs2 \<Longrightarrow> sans_lots (grouper_un l1 i gs1) = sans_lots (grouper_un l2 i gs2)"
proof (induction gs1 arbitrary: gs2)
  case Nil
  then show ?case by (simp add: sans_lots_def)
next
  case (Cons a gs1)
  obtain b gs2' where g2: "gs2 = b # gs2'" using Cons.prems by (cases gs2) (auto simp: sans_lots_def)
  obtain k1 g1 where a: "a = (k1, g1)" by (cases a)
  obtain k2 g2 where b: "b = (k2, g2)" by (cases b)
  have t: "sans_lots gs1 = sans_lots gs2'" and h: "k1 = k2" "g_proprietaire g1 = g_proprietaire g2"
      "g_droits g1 = g_droits g2" "g_date g1 = g_date g2"
    using Cons.prems by (simp_all add: g2 a b sans_lots_def)
  show ?case using Cons.IH [OF t] h t by (simp add: g2 a b sans_lots_def)
qed

lemma sans_lots_grouper:
  "map snd pl1 = map snd pl2 \<Longrightarrow> sans_lots gs1 = sans_lots gs2 \<Longrightarrow>
   sans_lots (grouper pl1 gs1) = sans_lots (grouper pl2 gs2)"
proof (induction pl1 arbitrary: pl2 gs1 gs2)
  case Nil
  then show ?case by simp
next
  case (Cons a pl1)
  obtain b pl2' where p2: "pl2 = b # pl2'" using Cons.prems(1) by (cases pl2) auto
  obtain l1 i1 where a: "a = (l1, i1)" by (cases a)
  obtain l2 i2 where b: "b = (l2, i2)" by (cases b)
  have i: "i1 = i2" and t: "map snd pl1 = map snd pl2'" using Cons.prems(1) by (simp_all add: p2 a b)
  show ?case
    using Cons.IH [OF t sans_lots_grouper_un [OF Cons.prems(2), of l1 i1 l2]] by (simp add: p2 a b i)
qed

lemma lots_de_grouper_un:
  "lots_de k (grouper_un l i gs) = lots_de k gs @ (if k = prop_key i then [l] else [])"
  by (induction gs) (auto simp: lots_de_def)

lemma lots_de_grouper:
  "lots_de k (grouper pl gs) = lots_de k gs @ map fst (filter (\<lambda>(l, i). prop_key i = k) pl)"
  by (induction pl arbitrary: gs) (auto simp: lots_de_grouper_un)

lemma keys_grouper_un:
  "set (map fst (grouper_un l i gs)) = insert (prop_key i) (set (map fst gs))"
proof (induction gs)
  case Nil
  show ?case by simp
next
  case (Cons a gs)
  obtain k g where a: "a = (k, g)" by (cases a)
  show ?case
  proof (cases "k = prop_key i")
    case True
    then show ?thesis by (simp add: a)
  next
    case False
    then show ?thesis using Cons.IH by (simp add: a insert_commute)
  qed
qed

lemma distinct_grouper_un:
  "distinct (map fst gs) \<Longrightarrow> distinct (map fst (grouper_un l i gs))"
proof (induction gs)
  case Nil
  then show ?case by simp
next
  case (Cons a gs)
  obtain k g where a: "a = (k, g)" by (cases a)
  show ?case
  proof (cases "k = prop_key i")
    case True
    then show ?thesis using Cons.prems by (simp add: a)
  next
    case False
    have "k \<notin> set (map fst (grouper_un l i gs))"
      unfolding keys_grouper_un using Cons.prems False by (simp add: a)
    then show ?thesis using Cons False by (simp add: a)
  qed
qed

lemma distinct_grouper:
  "distinct (map fst gs) \<Longrightarrow> distinct (map fst (grouper pl gs))"
  by (induction pl arbitrary: gs) (auto simp: distinct_grouper_un)


lemma lots_de_member:
  "distinct (map fst gs) \<Longrightarrow> (k, g) \<in> set gs \<Longrightarrow> lots_de k gs = g_lots g"
  by (simp add: lots_de_def)

lemma propriete_of_cong:
  assumes "g_proprietaire g1 = g_proprietaire g2" "g_droits g1 = g_droits g2" "g_date g1 = g_date g2"
    "mset (g_lots g1) = mset (g_lots g2)"
  shows "propriete_of imm g1 = propriete_of imm g2"
proof -
  have s: "set (g_lots g1) = set (g_lots g2)" using assms(4) by (rule mset_eq_setD)
  let ?f = "filter (\<lambda>l. l \<noteq> IMMEUBLE_ENTIER)"
  have "mset (?f (g_lots g1)) = mset (?f (g_lots g2))" using assms(4) by (metis mset_filter)
  then have "sort (?f (g_lots g1)) = sort (?f (g_lots g2))"
    by (intro properties_for_sort) simp_all
  then show ?thesis using assms(1-3) s by (simp add: propriete_of_def)
qed

lemma grouper_rel:
  assumes m: "mset pl1 = mset pl2" and s: "map snd pl1 = map snd pl2"
  shows "map (\<lambda>(k, g). propriete_of imm g) (grouper pl1 []) =
         map (\<lambda>(k, g). propriete_of imm g) (grouper pl2 [])"
proof -
  define gs1 where "gs1 = grouper pl1 []"
  define gs2 where "gs2 = grouper pl2 []"
  have sl: "sans_lots gs1 = sans_lots gs2"
    unfolding gs1_def gs2_def using s by (rule sans_lots_grouper) simp
  have len: "length gs1 = length gs2"
    using sl unfolding sans_lots_def by (rule map_eq_imp_length_eq)
  have d1: "distinct (map fst gs1)" and d2: "distinct (map fst gs2)"
    by (simp_all add: gs1_def gs2_def distinct_grouper)
  have lots: "lots_de k gs1 = map fst (filter (\<lambda>(l, i). prop_key i = k) pl1)"
             "lots_de k gs2 = map fst (filter (\<lambda>(l, i). prop_key i = k) pl2)" for k
    unfolding gs1_def gs2_def lots_de_grouper by (simp_all add: lots_de_def)
  have ms: "mset (map fst (filter P pl1)) = mset (map fst (filter P pl2))" for P
  proof -
    have "mset (map fst (filter P pl1)) = image_mset fst (filter_mset P (mset pl1))" by simp
    also have "\<dots> = image_mset fst (filter_mset P (mset pl2))" by (simp only: m)
    also have "\<dots> = mset (map fst (filter P pl2))" by simp
    finally show ?thesis .
  qed
  have pt: "(\<lambda>(k, g). propriete_of imm g) (gs1 ! j) = (\<lambda>(k, g). propriete_of imm g) (gs2 ! j)"
    if j: "j < length gs1" for j
  proof -
    obtain k1 g1 where e1: "gs1 ! j = (k1, g1)" by (cases "gs1 ! j")
    obtain k2 g2 where e2: "gs2 ! j = (k2, g2)" by (cases "gs2 ! j")
    have j2: "j < length gs2" using j len by simp
    have "sans_lots gs1 ! j = sans_lots gs2 ! j" by (simp only: sl)
    then have f: "k1 = k2" "g_proprietaire g1 = g_proprietaire g2" "g_droits g1 = g_droits g2"
        "g_date g1 = g_date g2"
      using j j2 e1 e2 by (simp_all add: sans_lots_def)
    have in1: "(k1, g1) \<in> set gs1" using nth_mem [OF j] e1 by simp
    have in2: "(k1, g2) \<in> set gs2" using nth_mem [OF j2] e2 f(1) by simp
    have l1: "g_lots g1 = map fst (filter (\<lambda>(l, i). prop_key i = k1) pl1)"
      using lots_de_member [OF d1 in1] lots(1) by simp
    have l2: "g_lots g2 = map fst (filter (\<lambda>(l, i). prop_key i = k1) pl2)"
      using lots_de_member [OF d2 in2] lots(2) by simp
    have "mset (g_lots g1) = mset (g_lots g2)"
      unfolding l1 l2 by (rule ms)
    then have "propriete_of imm g1 = propriete_of imm g2"
      using f by (intro propriete_of_cong)
    then show ?thesis by (simp add: e1 e2)
  qed
  have "map (\<lambda>(k, g). propriete_of imm g) gs1 = map (\<lambda>(k, g). propriete_of imm g) gs2"
  proof (rule nth_equalityI)
    show "length (map (\<lambda>(k, g). propriete_of imm g) gs1) = length (map (\<lambda>(k, g). propriete_of imm g) gs2)"
      using len by simp
  next
    fix j assume "j < length (map (\<lambda>(k, g). propriete_of imm g) gs1)"
    then have j: "j < length gs1" by simp
    then have j2: "j < length gs2" using len by simp
    show "map (\<lambda>(k, g). propriete_of imm g) gs1 ! j = map (\<lambda>(k, g). propriete_of imm g) gs2 ! j"
      using pt [OF j] by (simp only: nth_map [OF j] nth_map [OF j2])
  qed
  then show ?thesis by (simp only: gs1_def gs2_def)
qed

lemma resultat_final_rel:
  assumes "mset pl1 = mset pl2" "map snd pl1 = map snd pl2"
  shows "resultat_final imm lr pl1 = resultat_final imm lr pl2"
proof -
  have "set (map fst pl1) = set (map fst pl2)" using assms(1) by (metis mset_eq_setD set_map)
  then show ?thesis
    unfolding resultat_final_def using grouper_rel [OF assms] by simp
qed

lemma reconstituer_propriete_order:
  assumes "valid_order h1" "valid_order h2"
  shows "reconstituer_propriete U h1 ms imms = reconstituer_propriete U h2 ms imms"
proof (cases imms)
  case Nil
  then show ?thesis by (simp add: reconstituer_propriete_def)
next
  case (Cons imm autres)
  have "mset (fst (reconstituer_lots U h1 ms imm)) = mset (fst (reconstituer_lots U h2 ms imm)) \<and>
        map snd (fst (reconstituer_lots U h1 ms imm)) = map snd (fst (reconstituer_lots U h2 ms imm))"
    unfolding reconstituer_lots_def
    using boucle_rel [OF assms distinct_lots_ref_of, of "[]" "[]"] by simp
  then have "resultat_final imm (lots_ref_of U ms imm) (fst (reconstituer_lots U h1 ms imm)) =
             resultat_final imm (lots_ref_of U ms imm) (fst (reconstituer_lots U h2 ms imm))"
    by (intro resultat_final_rel) simp_all
  then show ?thesis
    by (simp add: reconstituer_propriete_def Cons)
qed

text \<open>
  C9. The pipeline is deterministic. Its result is a function of the text of the pages
  and of the table grids of the last page; the one thing that differs between two runs
  of the interpreter on the same document is the order in which the sets of lots are
  visited, and the result does not depend on it. The extraction date in the statistics
  is a constant of the program, so even that field is the same in both runs.
\<close>

theorem pipeline_deterministic:
  "valid_order h1 \<Longrightarrow> valid_order h2 \<Longrightarrow>
   extraction_complete_ehf U h1 pdf_name pages total_pages tables =
   extraction_complete_ehf U h2 pdf_name pages total_pages tables"
  by (simp add: extraction_complete_ehf_def Let_def reconstituer_propriete_order [of h1 h2])


theorem pipeline_deterministic_witness:
  "extraction_complete_ehf latin1_db id (ascii ''EHF8'') [ascii ''Date de depot: 01/01/2020''] 1 [] =
   extraction_complete_ehf latin1_db rev (ascii ''EHF8'') [ascii ''Date de depot: 01/01/2020''] 1 []"
  by (rule pipeline_deterministic) (simp_all add: valid_order_def)


section \<open>Mortgages and mutations\<close>

text \<open>The two loops of \<open>analyser_hypotheques_actives\<close> are two filters.\<close>

lemma separer_eq:
  "separer U fs =
     (filter (\<lambda>f. \<not> est_radiation U f \<and> (est_hypotheque_explicite U f \<or> est_hypotheque_implicite U f)) fs,
      filter (est_radiation U) fs)"
  by (induction fs) auto

lemma est_radiee_eq:
  "est_radiee U d rs =
     (\<exists>r\<in>set rs. py_in d (nature_acte_redacteur r) \<and> est_radiation U r)"
  by (induction rs) (auto simp: est_radiation_def)

lemma actives_loop_eq:
  "actives_loop U rs hs = map (hypotheque_active_of U) (filter (\<lambda>h. \<not> est_radiee U (date_depot h) rs) hs)"
  by (induction hs) auto

lemma analyser_hypotheques_actives_eq:
  "analyser_hypotheques_actives U formalites =
     map (hypotheque_active_of U)
       (filter (\<lambda>f. \<not> est_radiation U f \<and>
                     (est_hypotheque_explicite U f \<or> est_hypotheque_implicite U f) \<and>
                     \<not> (\<exists>r\<in>set formalites. est_radiation U r \<and>
                           py_in (date_depot f) (nature_acte_redacteur r)))
          formalites)"
proof -
  have "est_radiee U d (filter (est_radiation U) formalites) =
        (\<exists>r\<in>set formalites. est_radiation U r \<and> py_in d (nature_acte_redacteur r))" for d
    by (auto simp: est_radiee_eq)
  then show ?thesis
    by (simp add: analyser_hypotheques_actives_def separer_eq actives_loop_eq conj_ac cong: conj_cong)
qed

lemmas hypotheque_defs = est_radiation_def est_hypotheque_explicite_def est_hypotheque_implicite_def
  RADIATION_def TOTALE_def HYPOTHEQUE_def CREANCIERS_def DEBITEUR_def PROPRIETAIRES_IMMEUBLE_def
  est_mutation_candidate_def

text \<open>
  C4. A formality classified as a mortgage (not a cancellation, and a mortgage by its act
  text or by the implicit criterion) appears in \<open>hypotheques_actives\<close>, with the status
  ACTIVE, if and only if no cancellation of the document (an act text with both the
  radiation and the totality marker) contains the deposit date of the mortgage as a
  substring of its act text: the result is the list of exactly these mortgages, in the
  order of the document. The mortgage deposited on 12/03/2010 is left out when a
  cancellation reads RADIATION TOTALE DE L'HYPOTHEQUE DU 12/03/2010.
\<close>

theorem active_iff_no_matching_cancellation:
  "analyser_hypotheques_actives U formalites =
     map (hypotheque_active_of U)
       (filter (\<lambda>f. \<not> est_radiation U f \<and>
                     (est_hypotheque_explicite U f \<or> est_hypotheque_implicite U f) \<and>
                     \<not> (\<exists>r\<in>set formalites. est_radiation U r \<and>
                           py_in (date_depot f) (nature_acte_redacteur r)))
          formalites) \<and>
   (\<forall>h\<in>set (analyser_hypotheques_actives U formalites). h_statut h = ascii ''ACTIVE'') \<and>
   analyser_hypotheques_actives U
     [exemple_formalite 1 (ascii ''12/03/2010'') (ascii ''HYPOTHEQUE CONVENTIONNELLE''),
      exemple_formalite 2 (ascii ''15/09/2015'')
        (ascii ''RADIATION TOTALE DE L'' @ [39] @ ascii ''HYPOTHEQUE DU 12/03/2010'')] = []"
proof (intro conjI)
  show "analyser_hypotheques_actives U formalites =
     map (hypotheque_active_of U)
       (filter (\<lambda>f. \<not> est_radiation U f \<and>
                     (est_hypotheque_explicite U f \<or> est_hypotheque_implicite U f) \<and>
                     \<not> (\<exists>r\<in>set formalites. est_radiation U r \<and>
                           py_in (date_depot f) (nature_acte_redacteur r)))
          formalites)"
    by (rule analyser_hypotheques_actives_eq)
  show "\<forall>h\<in>set (analyser_hypotheques_actives U formalites). h_statut h = ascii ''ACTIVE''"
    by (auto simp: analyser_hypotheques_actives_eq hypotheque_active_of_def)
  show "analyser_hypotheques_actives U
     [exemple_formalite 1 (ascii ''12/03/2010'') (ascii ''HYPOTHEQUE CONVENTIONNELLE''),
      exemple_formalite 2 (ascii ''15/09/2015'')
        (ascii ''RADIATION TOTALE DE L'' @ [39] @ ascii ''HYPOTHEQUE DU 12/03/2010'')] = []"
    by (simp add: analyser_hypotheques_actives_def exemple_formalite_def hypotheque_defs text_defs)
qed

theorem active_iff_no_matching_cancellation_witness:
  "map h_numero_ordre (analyser_hypotheques_actives latin1_db
     [exemple_formalite 1 (ascii ''12/03/2010'') (ascii ''HYPOTHEQUE CONVENTIONNELLE''),
      exemple_formalite 2 (ascii ''15/09/2015'') (ascii ''RADIATION TOTALE DU 12/03/2010''),
      exemple_formalite 3 (ascii ''20/10/2018'') (ascii ''HYPOTHEQUE LEGALE'')]) = [3]"
  by (subst active_iff_no_matching_cancellation [THEN conjunct1])
     (simp add: exemple_formalite_def hypotheque_defs hypotheque_active_of_def text_defs)

text \<open>The example document is read as one formality, and the direct search finds its
  disposing party.\<close>

lemma sections_implicite: "sections_of latin1_db texte_implicite = [[], 32 # contenu_implicite]"
  by (simp add: sections_of_def texte_implicite_def contenu_implicite_def depot_pattern_def text_defs rx_defs cong: rx_congs)


lemmas formalite_defs = extract_formalites_def formalite_of_def depot_pattern_def entre_pattern_def
  date_depot_pattern_def date_acte_pattern_def ref_pattern_def ref_date_pattern_def

lemma strip_contenu: "strip (32 # contenu_implicite) = contenu_implicite"
  by (simp add: contenu_implicite_def text_defs)

lemma extrait_implicite: "extract_formalites latin1_db texte_implicite = [formalite_implicite]"
  unfolding extract_formalites_def sections_implicite
  apply (simp add: strip_contenu)
  apply (simp add: formalite_implicite_def formalite_of_def)
  apply (intro conjI)
  apply (simp_all add: contenu_implicite_def formalite_defs text_defs rx_defs cong: rx_congs)
  done

lemmas mutation_defs = extraire_mutations_def extraire_personnes_def disposant_patterns_def
  beneficiaire_patterns_def simple_disposant_def simple_beneficiaire_def rx_personne_def
  personne_of_def rx_entete_personnes_def rx_Beneficiaire_def fin_disposant_def fin_beneficiaire_def

lemma disposant_implicite:
  "extraire_personnes latin1_db disposant_patterns simple_disposant (ascii ''Date de depot: '' @ contenu_implicite) =
     [\<lparr>numero = ascii ''1'', designation = ascii ''AB'', date_naissance = ascii ''01/01/1970''\<rparr>]"
  by (simp add: contenu_implicite_def mutation_defs text_defs rx_defs cong: rx_congs)


lemma analyser_mutations_member:
  "f \<in> set formalites \<Longrightarrow> est_mutation_candidate U f \<Longrightarrow>
   disposant_donateur (extraire_mutations U (contenu f)) \<noteq> [] \<or>
   beneficiaire_donataire (extraire_mutations U (contenu f)) \<noteq> [] \<or>
   immeubles (extraire_mutations U (contenu f)) \<noteq> None \<Longrightarrow>
   mutation_of f (extraire_mutations U (contenu f)) \<in> set (analyser_mutations U formalites)"
  by (induction formalites) (auto simp: Let_def)

text \<open>
  C10. A formality whose act text has neither the mortgage nor the radiation marker, and
  whose content meets the implicit criterion, is a mortgage for
  \<open>analyser_hypotheques_actives\<close> and a candidate for \<open>analyser_mutations\<close>: it is in
  the active mortgages when no cancellation matches it, and in the mutations when the
  extraction of its parties or properties finds something. Both happen for the sale of
  the example document, which is in both lists at once.
\<close>

theorem implicit_mortgage_is_also_mutation:
  assumes "f \<in> set formalites"
    and "\<not> py_in HYPOTHEQUE (upper U (nature_acte_redacteur f))"
    and "\<not> py_in RADIATION (upper U (nature_acte_redacteur f))"
    and "est_hypotheque_implicite U f"
  shows "(\<not> (\<exists>r\<in>set formalites. est_radiation U r \<and> py_in (date_depot f) (nature_acte_redacteur r)) \<longrightarrow>
            hypotheque_active_of U f \<in> set (analyser_hypotheques_actives U formalites)) \<and>
         (disposant_donateur (extraire_mutations U (contenu f)) \<noteq> [] \<or>
          beneficiaire_donataire (extraire_mutations U (contenu f)) \<noteq> [] \<or>
          immeubles (extraire_mutations U (contenu f)) \<noteq> None \<longrightarrow>
            mutation_of f (extraire_mutations U (contenu f)) \<in> set (analyser_mutations U formalites))"
proof (intro conjI impI)
  assume "\<not> (\<exists>r\<in>set formalites. est_radiation U r \<and> py_in (date_depot f) (nature_acte_redacteur r))"
  moreover have "\<not> est_radiation U f" using assms(3) by (simp add: est_radiation_def)
  ultimately show "hypotheque_active_of U f \<in> set (analyser_hypotheques_actives U formalites)"
    using assms(1,4) by (auto simp: analyser_hypotheques_actives_eq)
next
  assume "disposant_donateur (extraire_mutations U (contenu f)) \<noteq> [] \<or>
          beneficiaire_donataire (extraire_mutations U (contenu f)) \<noteq> [] \<or>
          immeubles (extraire_mutations U (contenu f)) \<noteq> None"
  then show "mutation_of f (extraire_mutations U (contenu f)) \<in> set (analyser_mutations U formalites)"
    using assms(1-3) by (intro analyser_mutations_member) (simp_all add: est_mutation_candidate_def)
qed

theorem implicit_mortgage_is_also_mutation_witness:
  "extract_formalites latin1_db texte_implicite = [formalite_implicite] \<and>
   hypotheque_active_of latin1_db formalite_implicite
     \<in> set (analyser_hypotheques_actives latin1_db (extract_formalites latin1_db texte_implicite)) \<and>
   mutation_of formalite_implicite (extraire_mutations latin1_db (contenu formalite_implicite))
     \<in> set (analyser_mutations latin1_db (extract_formalites latin1_db texte_implicite))"
proof -
  have n: "\<not> py_in HYPOTHEQUE (upper latin1_db (nature_acte_redacteur formalite_implicite))"
          "\<not> py_in RADIATION (upper latin1_db (nature_acte_redacteur formalite_implicite))"
    by (simp_all add: formalite_implicite_def hypotheque_defs text_defs)
  have i: "est_hypotheque_implicite latin1_db formalite_implicite"
    by (simp add: formalite_implicite_def contenu_implicite_def hypotheque_defs text_defs)
  have r: "\<not> (\<exists>r\<in>set [formalite_implicite]. est_radiation latin1_db r \<and>
              py_in (date_depot formalite_implicite) (nature_acte_redacteur r))"
    using n(2) by (simp add: est_radiation_def)
  have ne: "ascii ''Date de depot: '' @ contenu_implicite \<noteq> []"
    by (simp add: ascii_def)
  have d: "disposant_donateur (extraire_mutations latin1_db (contenu formalite_implicite)) \<noteq> []"
    using ne by (simp add: extraire_mutations_def formalite_implicite_def disposant_implicite)
  show ?thesis
    using implicit_mortgage_is_also_mutation [of formalite_implicite "[formalite_implicite]" latin1_db, OF _ n i] r d
    by (simp add: extrait_implicite)
qed



section \<open>The count of the act types\<close>

text \<open>The loop keeps, for the types seen so far, their numbers of occurrences in the
  order of first occurrence; the sort is stable.\<close>

lemma fromkeys_snoc: "fromkeys (ls @ [k]) = (if k \<in> set ls then fromkeys ls else fromkeys ls @ [k])"
  by (simp add: fromkeys_def)

lemma set_fromkeys: "set (fromkeys ls) = set ls"
  by (simp add: fromkeys_def)

lemma distinct_fromkeys: "distinct (fromkeys ls)"
  by (simp add: fromkeys_def)

lemma count_list_snoc: "count_list (ls @ [k]) l = count_list ls l + (if l = k then 1 else 0)"
  by (induction ls) auto

lemma incr_map:
  "distinct ks \<Longrightarrow>
   incr k (map (\<lambda>l. (l, c l)) ks) =
     (if k \<in> set ks then map (\<lambda>l. (l, if l = k then c l + 1 else c l)) ks
      else map (\<lambda>l. (l, c l)) ks @ [(k, 1)])"
  by (induction ks) auto

lemma incr_comptes: "incr k (comptes ls) = comptes (ls @ [k])"
proof (cases "k \<in> set ls")
  case True
  then show ?thesis
    by (simp add: comptes_def incr_map distinct_fromkeys set_fromkeys fromkeys_snoc count_list_snoc)
next
  case False
  then have "count_list ls k = 0" by (simp add: count_list_0_iff)
  then show ?thesis using False
    by (auto simp: comptes_def incr_map distinct_fromkeys set_fromkeys fromkeys_snoc count_list_snoc)
qed

lemma comptage_loop_comptes:
  "comptage_loop U fs (comptes ls) = comptes (ls @ types_comptes U fs)"
proof (induction fs arbitrary: ls)
  case Nil
  then show ?case by (simp add: types_comptes_def)
next
  case (Cons f fs)
  show ?case
  proof (cases "strip (nature_acte_redacteur f) \<noteq> [] \<and> upper U (strip (nature_acte_redacteur f)) \<noteq> NON_TROUVE")
    case True
    then show ?thesis
      using Cons.IH [of "ls @ [classifier_type_acte U (strip (nature_acte_redacteur f))]"]
      by (simp add: Let_def incr_comptes types_comptes_def)
  next
    case False
    then show ?thesis using Cons.IH [of ls] by (auto simp: Let_def types_comptes_def)
  qed
qed

lemma sorted_reverse_mset: "mset (sorted_reverse f xs) = mset xs"
  by (simp add: sorted_reverse_def)

lemma sorted_reverse_sorted: "sorted (rev (map f (sorted_reverse f xs)))"
  by (simp add: sorted_reverse_def rev_map)

lemma sorted_reverse_stable:
  "filter (\<lambda>y. f y = k) (sorted_reverse f xs) = filter (\<lambda>y. f y = k) xs"
  by (simp add: sorted_reverse_def rev_filter [symmetric] sort_key_stable)

text \<open>
  C7. The aggregation classifies the act text of every formality, skips the empty and
  the not-found ones, and counts the occurrences of each type: the sorted result has
  exactly the entries of \<open>comptes\<close>. Its counts are in descending order, and for every
  count \<open>c\<close> the types that occur \<open>c\<close> times come in the order in which they were first
  seen.
\<close>

theorem counts_sorted_by_count_then_first_seen:
  "mset (comptage_trie U formalites) = mset (comptes (types_comptes U formalites)) \<and>
   sorted (rev (map snd (comptage_trie U formalites))) \<and>
   filter (\<lambda>e. snd e = c) (comptage_trie U formalites) =
     filter (\<lambda>e. snd e = c) (comptes (types_comptes U formalites))"
proof -
  have "comptage_loop U formalites [] = comptes (types_comptes U formalites)"
    using comptage_loop_comptes [of U formalites "[]"] by (simp add: comptes_def fromkeys_def)
  then show ?thesis
    by (simp add: comptage_trie_def sorted_reverse_mset sorted_reverse_sorted sorted_reverse_stable)
qed

lemmas classifier_defs = classifier_type_acte_def patterns_formalite_def

theorem counts_sorted_by_count_then_first_seen_witness:
  "comptage_trie latin1_db
     [exemple_formalite 1 (ascii ''01/01/2001'') (ascii ''DONATION''),
      exemple_formalite 2 (ascii ''01/01/2002'') (ascii ''VENTE''),
      exemple_formalite 3 (ascii ''01/01/2003'') non_trouve,
      exemple_formalite 4 (ascii ''01/01/2004'') (ascii ''VENTE''),
      exemple_formalite 5 (ascii ''01/01/2005'') (ascii ''PARTAGE'')] =
     [(ascii ''VENTE'', 2), (ascii ''DONATION'', 1), (ascii ''PARTAGE'', 1)] \<and>
   filter (\<lambda>e. snd e = 1) (comptes (types_comptes latin1_db
     [exemple_formalite 1 (ascii ''01/01/2001'') (ascii ''DONATION''),
      exemple_formalite 2 (ascii ''01/01/2002'') (ascii ''VENTE''),
      exemple_formalite 3 (ascii ''01/01/2003'') non_trouve,
      exemple_formalite 4 (ascii ''01/01/2004'') (ascii ''VENTE''),
      exemple_formalite 5 (ascii ''01/01/2005'') (ascii ''PARTAGE'')])) =
     [(ascii ''DONATION'', 1), (ascii ''PARTAGE'', 1)]"
proof -
  define fs where "fs =
     [exemple_formalite 1 (ascii ''01/01/2001'') (ascii ''DONATION''),
      exemple_formalite 2 (ascii ''01/01/2002'') (ascii ''VENTE''),
      exemple_formalite 3 (ascii ''01/01/2003'') non_trouve,
      exemple_formalite 4 (ascii ''01/01/2004'') (ascii ''VENTE''),
      exemple_formalite 5 (ascii ''01/01/2005'') (ascii ''PARTAGE'')]"
  have c: "classifier_type_acte latin1_db (ascii ''DONATION'') = ascii ''DONATION''"
          "classifier_type_acte latin1_db (ascii ''VENTE'') = ascii ''VENTE''"
          "classifier_type_acte latin1_db (ascii ''PARTAGE'') = ascii ''PARTAGE''"
    by (simp_all add: classifier_defs text_defs rx_defs cong: rx_congs)
  have s: "strip (ascii ''DONATION'') = ascii ''DONATION''" "strip (ascii ''VENTE'') = ascii ''VENTE''"
          "strip (ascii ''PARTAGE'') = ascii ''PARTAGE''" "strip non_trouve = non_trouve"
    by (simp_all add: text_defs)
  have u: "upper latin1_db (ascii ''DONATION'') \<noteq> NON_TROUVE" "upper latin1_db (ascii ''VENTE'') \<noteq> NON_TROUVE"
          "upper latin1_db (ascii ''PARTAGE'') \<noteq> NON_TROUVE" "upper latin1_db non_trouve = NON_TROUVE"
          "ascii ''DONATION'' \<noteq> []" "ascii ''VENTE'' \<noteq> []" "ascii ''PARTAGE'' \<noteq> []" "non_trouve \<noteq> []"
    by (simp_all add: text_defs NON_TROUVE_def)
  have e: "comptage_trie latin1_db fs =
     [(ascii ''VENTE'', 2), (ascii ''DONATION'', 1), (ascii ''PARTAGE'', 1)]"
    unfolding fs_def comptage_trie_def
    by (simp add: exemple_formalite_def c s u Let_def sorted_reverse_def) (simp add: ascii_def)
  have "filter (\<lambda>e. snd e = 1) (comptage_trie latin1_db fs) =
        filter (\<lambda>e. snd e = 1) (comptes (types_comptes latin1_db fs))"
    using counts_sorted_by_count_then_first_seen [of latin1_db fs 1] by blast
  then have "filter (\<lambda>e. snd e = 1) (comptes (types_comptes latin1_db fs)) =
        [(ascii ''DONATION'', 1), (ascii ''PARTAGE'', 1)]"
    unfolding e by simp
  then show ?thesis using e unfolding fs_def by simp
qed



section \<open>The numbering of the formalities\<close>

text \<open>The formality made of a section carries the index of the section.\<close>

lemma pieces_length: "length (pieces s cur ms) = Suc (length ms)"
  by (induction ms arbitrary: cur) auto

lemma numero_ordre_formalite_of: "numero_ordre (formalite_of U i c) = i"
  by (simp add: formalite_of_def)

lemma formalites_loop_numbers:
  "map numero_ordre (formalites_loop U i secs) =
     filter (\<lambda>j. j \<noteq> 0 \<and> strip (secs ! (j - i)) \<noteq> []) [i..<i + length secs]"
proof (induction secs arbitrary: i)
  case Nil
  then show ?case by simp
next
  case (Cons sec secs)
  define R where "R = [Suc i..<Suc i + length secs]"
  have up: "[i..<i + length (sec # secs)] = i # R"
    unfolding R_def by (subst upt_rec) simp
  have tl: "filter (\<lambda>j. j \<noteq> 0 \<and> strip ((sec # secs) ! (j - i)) \<noteq> []) R =
            filter (\<lambda>j. j \<noteq> 0 \<and> strip (secs ! (j - Suc i)) \<noteq> []) R"
  proof (rule filter_cong [OF refl])
    fix j assume "j \<in> set R"
    then have "j - i = Suc (j - Suc i)" unfolding R_def by auto
    then show "(j \<noteq> 0 \<and> strip ((sec # secs) ! (j - i)) \<noteq> []) = (j \<noteq> 0 \<and> strip (secs ! (j - Suc i)) \<noteq> [])"
      by simp
  qed
  have ih: "map numero_ordre (formalites_loop U (Suc i) secs) =
            filter (\<lambda>j. j \<noteq> 0 \<and> strip (secs ! (j - Suc i)) \<noteq> []) R"
    unfolding R_def by (rule Cons.IH)
  have lhs: "map numero_ordre (formalites_loop U i (sec # secs)) =
             (if i \<noteq> 0 \<and> strip sec \<noteq> [] then [i] else []) @ map numero_ordre (formalites_loop U (Suc i) secs)"
    by (simp add: numero_ordre_formalite_of)
  have rhs: "filter (\<lambda>j. j \<noteq> 0 \<and> strip ((sec # secs) ! (j - i)) \<noteq> []) (i # R) =
             (if i \<noteq> 0 \<and> strip sec \<noteq> [] then [i] else []) @
             filter (\<lambda>j. j \<noteq> 0 \<and> strip ((sec # secs) ! (j - i)) \<noteq> []) R"
    by simp
  show ?case unfolding up lhs rhs tl ih ..
qed

lemma extract_numbers:
  "map numero_ordre (extract_formalites U full_text) =
     filter (\<lambda>j. strip (sections_of U full_text ! j) \<noteq> []) [1..<length (sections_of U full_text)]"
proof -
  have ne: "sections_of U full_text \<noteq> []"
    using pieces_length [of full_text 0 "re_finditer U fl_I depot_pattern full_text"]
    by (auto simp: sections_of_def re_split_def)
  then have up: "[0..<length (sections_of U full_text)] = 0 # [1..<length (sections_of U full_text)]"
    by (subst upt_rec) simp
  have "filter (\<lambda>j. j \<noteq> 0 \<and> strip (sections_of U full_text ! j) \<noteq> []) [1..<length (sections_of U full_text)] =
        filter (\<lambda>j. strip (sections_of U full_text ! j) \<noteq> []) [1..<length (sections_of U full_text)]"
    by (intro filter_cong) auto
  then show ?thesis
    using formalites_loop_numbers [of U 0 "sections_of U full_text"] up
    by (simp add: extract_formalites_def)
qed

lemma length_sections: "length (sections_of U full_text) = Suc (nombre_ancres U full_text)"
  by (simp add: sections_of_def re_split_def pieces_length nombre_ancres_def)

text \<open>
  C3 (as amended). With \<open>N\<close> the number of occurrences of the anchor phrase, the text is
  split in \<open>N + 1\<close> sections. Every section after the preamble that is not empty once
  trimmed becomes exactly one formality, whose \<open>numero_ordre\<close> is the position of the
  section; a section that is blank once trimmed is dropped. The values of
  \<open>numero_ordre\<close> are therefore strictly increasing and lie between 1 and \<open>N\<close>, and they
  are exactly 1..N when no section is blank.
\<close>

theorem numero_ordre_of_non_blank_sections:
  "map numero_ordre (extract_formalites U full_text) =
     filter (\<lambda>j. strip (sections_of U full_text ! j) \<noteq> []) [1..<Suc (nombre_ancres U full_text)] \<and>
   length (sections_of U full_text) = Suc (nombre_ancres U full_text) \<and>
   sorted_wrt (<) (map numero_ordre (extract_formalites U full_text)) \<and>
   (\<forall>n\<in>set (map numero_ordre (extract_formalites U full_text)). 1 \<le> n \<and> n \<le> nombre_ancres U full_text) \<and>
   ((\<forall>j. 1 \<le> j \<and> j \<le> nombre_ancres U full_text \<longrightarrow> strip (sections_of U full_text ! j) \<noteq> []) \<longrightarrow>
      map numero_ordre (extract_formalites U full_text) = [1..<Suc (nombre_ancres U full_text)])"
proof -
  have e: "map numero_ordre (extract_formalites U full_text) =
     filter (\<lambda>j. strip (sections_of U full_text ! j) \<noteq> []) [1..<Suc (nombre_ancres U full_text)]"
    using extract_numbers [of U full_text] by (simp add: length_sections)
  have s: "sorted_wrt (<) (map numero_ordre (extract_formalites U full_text))"
    unfolding e by (rule sorted_wrt_filter) (rule sorted_wrt_upt)
  have b: "\<forall>n\<in>set (map numero_ordre (extract_formalites U full_text)). 1 \<le> n \<and> n \<le> nombre_ancres U full_text"
    unfolding e by auto
  have a: "map numero_ordre (extract_formalites U full_text) = [1..<Suc (nombre_ancres U full_text)]"
    if "\<forall>j. 1 \<le> j \<and> j \<le> nombre_ancres U full_text \<longrightarrow> strip (sections_of U full_text ! j) \<noteq> []"
  proof -
    have "filter (\<lambda>j. strip (sections_of U full_text ! j) \<noteq> []) [1..<Suc (nombre_ancres U full_text)] =
          [1..<Suc (nombre_ancres U full_text)]"
      using that by (intro filter_True) auto
    then show ?thesis using e by simp
  qed
  show ?thesis using e s b a length_sections by blast
qed

text \<open>The claim as stated fails for a document in which an anchor is followed by
  nothing but white space before the next anchor: it has two anchors, and its one
  formality has the number 2.\<close>

lemmas sections_defs = formalite_defs sections_of_def nombre_ancres_def

theorem blank_section_is_dropped:
  "map numero_ordre
     (extract_formalites latin1_db (full_text_of [ascii ''Date de depot:'' @ [10] @ ascii ''Date de depot: A''])) = [2] \<and>
   nombre_ancres latin1_db (full_text_of [ascii ''Date de depot:'' @ [10] @ ascii ''Date de depot: A'']) = 2"
  by (simp add: sections_defs full_text_of_def text_defs rx_defs cong: rx_congs)

theorem numero_ordre_of_non_blank_sections_witness:
  "map numero_ordre (extract_formalites latin1_db (ascii ''x Date de depot:A DATE DE DEPOT :B'')) = [1, 2] \<and>
   nombre_ancres latin1_db (ascii ''x Date de depot:A DATE DE DEPOT :B'') = 2"
proof -
  have s: "sections_of latin1_db (ascii ''x Date de depot:A DATE DE DEPOT :B'') = [ascii ''x '', ascii ''A '', ascii ''B'']"
    by (simp add: sections_of_def depot_pattern_def text_defs rx_defs cong: rx_congs)
  have n: "nombre_ancres latin1_db (ascii ''x Date de depot:A DATE DE DEPOT :B'') = 2"
    using length_sections [of latin1_db "ascii ''x Date de depot:A DATE DE DEPOT :B''"] unfolding s by simp
  have "\<forall>j. 1 \<le> j \<and> j \<le> nombre_ancres latin1_db (ascii ''x Date de depot:A DATE DE DEPOT :B'') \<longrightarrow>
          strip (sections_of latin1_db (ascii ''x Date de depot:A DATE DE DEPOT :B'') ! j) \<noteq> []"
    unfolding n s by (auto simp: text_defs le_Suc_eq numeral_2_eq_2)
  then have "map numero_ordre (extract_formalites latin1_db (ascii ''x Date de depot:A DATE DE DEPOT :B'')) =
        [1..<Suc (nombre_ancres latin1_db (ascii ''x Date de depot:A DATE DE DEPOT :B''))]"
    using numero_ordre_of_non_blank_sections [of latin1_db "ascii ''x Date de depot:A DATE DE DEPOT :B''"] by blast
  then show ?thesis unfolding n by (simp add: upt_conv_Cons)
qed



section \<open>The classification of the acts\<close>

text \<open>Each of the four patterns begins with \<^verbatim>\<open>\s+\<close>, so a match begins at a white space
  character, and the trimmed text does not begin with one: the text before a match is never
  blank, and the fallback of the source for a blank prefix is dead code.\<close>

lemma cls_space: "cls_match U F [CSpace] c = isspace c"
  by (simp add: cls_match_def)

lemma run_space_first:
  "run U F (M (Rep 1 None True (Cls [CSpace])) # stk) (MState p l s pv cp) = Some x \<Longrightarrow>
   \<exists>c cs. s = c # cs \<and> isspace c"
  by (cases s) (auto simp: cls_space split: option.splits if_splits)

lemma match_at_space_first:
  assumes "match_at U F (Seq (Rep 1 None True (Cls [CSpace])) r) p l pv s = Some mt"
  shows "\<exists>c cs. s = c # cs \<and> isspace c"
proof -
  obtain x where "run U F [M (Seq (Rep 1 None True (Cls [CSpace])) r)] (MState p l s pv []) = Some x"
    using assms unfolding match_at_def by (auto split: option.splits)
  then have "run U F (M (Rep 1 None True (Cls [CSpace])) # [M r]) (MState p l s pv []) = Some x"
    by (subst (asm) run.simps) simp
  then show ?thesis by (rule run_space_first)
qed

lemma match_at_start: "match_at U F r p l pv s = Some mt \<Longrightarrow> m_start mt = p"
  by (auto simp: match_at_def split: option.splits)

lemma search_from_found:
  "search_from U F r p l pv s = Some mt \<Longrightarrow>
   \<exists>k l' pv'. k \<le> length s \<and> m_start mt = p + k \<and> match_at U F r (p + k) l' pv' (drop k s) = Some mt"
proof (induction s arbitrary: p l pv)
  case Nil
  then have m: "match_at U F r p l pv [] = Some mt" by simp
  show ?case using m match_at_start [OF m]
    by (intro exI [of _ 0] exI [of _ l] exI [of _ pv]) simp
next
  case (Cons c cs)
  show ?case
  proof (cases "match_at U F r p l pv (c # cs)")
    case (Some mt')
    then have m: "match_at U F r p l pv (c # cs) = Some mt" using Cons.prems by simp
    show ?thesis using m match_at_start [OF m]
      by (intro exI [of _ 0] exI [of _ l] exI [of _ pv]) simp
  next
    case None
    then have "search_from U F r (p + 1) (l - 1) (Some c) cs = Some mt" using Cons.prems by simp
    then obtain k l' pv' where k: "k \<le> length cs" "m_start mt = p + 1 + k"
        "match_at U F r (p + 1 + k) l' pv' (drop k cs) = Some mt"
      using Cons.IH by blast
    then show ?thesis by (intro exI [of _ "Suc k"] exI [of _ l'] exI [of _ pv']) simp
  qed
qed

lemma re_search_space_first:
  assumes "re_search U F (Seq (Rep 1 None True (Cls [CSpace])) r) s = Some mt"
  shows "m_start mt < length s \<and> isspace (s ! m_start mt)"
proof -
  obtain k l' pv' where k: "k \<le> length s" "m_start mt = k"
      "match_at U F (Seq (Rep 1 None True (Cls [CSpace])) r) k l' pv' (drop k s) = Some mt"
    using search_from_found [OF assms [unfolded re_search_def]] by auto
  obtain c cs where c: "drop k s = c # cs" "isspace c"
    using match_at_space_first [OF k(3)] by blast
  have "k < length s" using c(1) k(1) by (cases "k = length s") auto
  moreover have "s ! k = c" using c(1) by (metis nth_via_drop)
  ultimately show ?thesis using k(2) c(2) by simp
qed

lemma rstrip_keeps_head:
  "\<not> isspace a \<Longrightarrow>
   rev (dropWhile isspace (rev (a # v))) =
   a # (if \<forall>x\<in>set v. isspace x then [] else rev (dropWhile isspace (rev v)))"
  by (simp add: dropWhile_append)

lemma strip_Cons:
  assumes "\<not> isspace a"
  shows "\<exists>w. strip (a # v) = a # w"
proof -
  have "dropWhile isspace (a # v) = a # v" using assms by simp
  then have "strip (a # v) = rev (dropWhile isspace (rev (a # v)))" by (simp only: strip_def)
  then show ?thesis unfolding rstrip_keeps_head [OF assms] by blast
qed

lemma strip_head:
  assumes "strip t = c # cs"
  shows "\<not> isspace c"
proof (cases "dropWhile isspace t")
  case Nil
  then show ?thesis using assms unfolding strip_def Nil by simp
next
  case (Cons a v)
  then have na: "\<not> isspace a" by (metis hd_dropWhile list.sel(1) list.distinct(1))
  have "strip t = rev (dropWhile isspace (rev (a # v)))" by (simp only: strip_def Cons)
  then have "strip t = a # (if \<forall>x\<in>set v. isspace x then [] else rev (dropWhile isspace (rev v)))"
    unfolding rstrip_keeps_head [OF na] .
  then have "c = a" using assms by simp
  then show ?thesis using na by simp
qed

lemma strip_nonempty: "\<not> isspace a \<Longrightarrow> strip (a # v) \<noteq> []"
  using strip_Cons [of a v] by auto

lemma prefix_before_space_nonempty:
  assumes "re_search U F (Seq (Rep 1 None True (Cls [CSpace])) r) (strip t) = Some mt"
  shows "strip (take (m_start mt) (strip t)) \<noteq> []"
proof -
  have k: "m_start mt < length (strip t)" "isspace (strip t ! m_start mt)"
    using re_search_space_first [OF assms] by simp_all
  then obtain c cs where s: "strip t = c # cs" by (cases "strip t") auto
  have nc: "\<not> isspace c" using s by (rule strip_head)
  have "m_start mt \<noteq> 0" using k(2) nc s by (cases "m_start mt") auto
  then obtain j where j: "m_start mt = Suc j" by (cases "m_start mt") auto
  show ?thesis unfolding s j using nc by (simp add: strip_nonempty)
qed


lemma classifier_loop_none:
  "\<forall>i<length ps. re_search U fl_I (ps ! i) s = None \<Longrightarrow> classifier_loop U s ps = s"
proof (induction ps)
  case Nil
  show ?case by simp
next
  case (Cons p ps)
  have "re_search U fl_I ((p # ps) ! 0) s = None" using Cons.prems by blast
  then have h: "re_search U fl_I p s = None" by simp
  have "\<forall>i<length ps. re_search U fl_I (ps ! i) s = None"
  proof (intro allI impI)
    fix i assume "i < length ps"
    then have "re_search U fl_I ((p # ps) ! Suc i) s = None" using Cons.prems by auto
    then show "re_search U fl_I (ps ! i) s = None" by simp
  qed
  then show ?case using Cons.IH h by simp
qed

lemma classifier_loop_first:
  "i < length ps \<Longrightarrow> re_search U fl_I (ps ! i) s = Some mt \<Longrightarrow>
   \<forall>j<i. re_search U fl_I (ps ! j) s = None \<Longrightarrow> strip (take (m_start mt) s) \<noteq> [] \<Longrightarrow>
   classifier_loop U s ps = strip (take (m_start mt) s)"
proof (induction ps arbitrary: i)
  case Nil
  then show ?case by simp
next
  case (Cons p ps)
  show ?case
  proof (cases i)
    case 0
    then have "re_search U fl_I p s = Some mt" using Cons.prems(2) by simp
    then show ?thesis using Cons.prems(4) by (simp add: Let_def)
  next
    case (Suc k)
    have "re_search U fl_I ((p # ps) ! 0) s = None" using Cons.prems(3) Suc by blast
    then have h: "re_search U fl_I p s = None" by simp
    have k: "k < length ps" "re_search U fl_I (ps ! k) s = Some mt"
      using Cons.prems(1,2) Suc by simp_all
    have "\<forall>j<k. re_search U fl_I (ps ! j) s = None"
    proof (intro allI impI)
      fix j assume "j < k"
      then have "re_search U fl_I ((p # ps) ! Suc j) s = None" using Cons.prems(3) Suc by auto
      then show "re_search U fl_I (ps ! j) s = None" by simp
    qed
    then have "classifier_loop U s ps = strip (take (m_start mt) s)"
      using Cons.IH [OF k] Cons.prems(4) by blast
    then show ?thesis using h by simp
  qed
qed

lemma patterns_formalite_space_first:
  "i < length patterns_formalite \<Longrightarrow>
   \<exists>r. patterns_formalite ! i = Seq (Rep 1 None True (Cls [CSpace])) r"
  by (auto simp: patterns_formalite_def seqs_def plus_def ws_def less_Suc_eq numeral_2_eq_2 numeral_3_eq_3)

text \<open>
  C6 (as amended). The four patterns are tried in the order of the source, the accented
  variant before the unaccented one, each without regard to case. When none of them occurs
  in the trimmed text, the result is the trimmed text. Otherwise the result is what
  precedes the leftmost match of the first pattern that occurs, trimmed, and it is not
  empty. In particular \<^verbatim>\<open>VENTE de la formalit\'e n\<degree>3\<close> gives \<^verbatim>\<open>VENTE\<close>, and so does
  \<^verbatim>\<open>VENTE\<close>.
\<close>

theorem classifier_first_pattern_in_order:
  "((\<forall>i<length patterns_formalite. re_search U fl_I (patterns_formalite ! i) (strip t) = None) \<longrightarrow>
      classifier_type_acte U t = strip t) \<and>
   (\<forall>i mt. i < length patterns_formalite \<and>
      re_search U fl_I (patterns_formalite ! i) (strip t) = Some mt \<and>
      (\<forall>j<i. re_search U fl_I (patterns_formalite ! j) (strip t) = None) \<longrightarrow>
      classifier_type_acte U t = strip (take (m_start mt) (strip t)) \<and>
      classifier_type_acte U t \<noteq> []) \<and>
   classifier_type_acte U (ascii ''VENTE de la formalit'' @ [233] @ ascii '' n'' @ [176] @ ascii ''3'') =
     ascii ''VENTE'' \<and>
   classifier_type_acte U (ascii ''VENTE'') = ascii ''VENTE''"
proof (intro conjI allI impI)
  assume "\<forall>i<length patterns_formalite. re_search U fl_I (patterns_formalite ! i) (strip t) = None"
  then show "classifier_type_acte U t = strip t"
    unfolding classifier_type_acte_def by (rule classifier_loop_none)
next
  fix i mt
  assume a: "i < length patterns_formalite \<and>
      re_search U fl_I (patterns_formalite ! i) (strip t) = Some mt \<and>
      (\<forall>j<i. re_search U fl_I (patterns_formalite ! j) (strip t) = None)"
  obtain r where "patterns_formalite ! i = Seq (Rep 1 None True (Cls [CSpace])) r"
    using patterns_formalite_space_first a by blast
  then have ne: "strip (take (m_start mt) (strip t)) \<noteq> []"
    using a prefix_before_space_nonempty by metis
  have e: "classifier_loop U (strip t) patterns_formalite = strip (take (m_start mt) (strip t))"
    using a ne by (intro classifier_loop_first [of i]) simp_all
  show "classifier_type_acte U t = strip (take (m_start mt) (strip t))"
    unfolding classifier_type_acte_def by (rule e)
  show "classifier_type_acte U t \<noteq> []"
    unfolding classifier_type_acte_def e by (rule ne)
next
  show "classifier_type_acte U (ascii ''VENTE de la formalit'' @ [233] @ ascii '' n'' @ [176] @ ascii ''3'') =
     ascii ''VENTE''"
    by (simp add: classifier_defs text_defs rx_defs cong: rx_congs)
next
  show "classifier_type_acte U (ascii ''VENTE'') = ascii ''VENTE''"
    by (simp add: classifier_defs text_defs rx_defs cong: rx_congs)
qed

text \<open>The first occurrence of a variant is not always where the text is cut: when the
  unaccented variant comes before the accented one, the text is cut at the accented one,
  although the unaccented pattern matches at position 5, after \<^verbatim>\<open>VENTE\<close>.\<close>

theorem later_accented_variant_wins:
  "classifier_type_acte latin1_db
     (ascii ''VENTE de la formalite X de la formalit'' @ [233] @ ascii '' Y'') =
     ascii ''VENTE de la formalite X'' \<and>
   re_search latin1_db fl_I (patterns_formalite ! 1)
     (strip (ascii ''VENTE de la formalite X de la formalit'' @ [233] @ ascii '' Y'')) =
     Some (RMatch 5 21 []) \<and>
   strip (take 5 (strip (ascii ''VENTE de la formalite X de la formalit'' @ [233] @ ascii '' Y''))) =
     ascii ''VENTE''"
  by (simp add: classifier_defs text_defs rx_defs cong: rx_congs)

text \<open>An act whose phrase is in capitals and unaccented: the first pattern does not occur,
  the second does.\<close>

theorem classifier_first_pattern_in_order_witness:
  "classifier_type_acte latin1_db (ascii '' Donation  DE LA FORMALITE 12 '') = ascii ''Donation''"
proof -
  let ?t = "ascii '' Donation  DE LA FORMALITE 12 ''"
  have s: "strip ?t = ascii ''Donation  DE LA FORMALITE 12''" by (simp add: text_defs)
  have n: "re_search latin1_db fl_I (patterns_formalite ! 0) (strip ?t) = None"
    unfolding s by (simp add: classifier_defs text_defs rx_defs cong: rx_congs)
  have m: "re_search latin1_db fl_I (patterns_formalite ! 1) (strip ?t) = Some (RMatch 8 25 [])"
    unfolding s by (simp add: classifier_defs text_defs rx_defs cong: rx_congs)
  have l: "(1::nat) < length patterns_formalite" by (simp add: patterns_formalite_def)
  have j: "\<forall>j<1. re_search latin1_db fl_I (patterns_formalite ! j) (strip ?t) = None"
    using n by simp
  note c = conjunct1 [OF conjunct2 [OF classifier_first_pattern_in_order [of latin1_db ?t]]]
  have "classifier_type_acte latin1_db ?t = strip (take (m_start (RMatch 8 25 [])) (strip ?t))"
    using c [rule_format, of 1 "RMatch 8 25 []"] l m j by blast
  then show ?thesis unfolding s by (simp add: text_defs)
qed


section \<open>The table of the reference properties\<close>

text \<open>A text that \<^verbatim>\<open>int\<close> accepts has no \<^verbatim>\<open>\`a\<close> in it, so \<^verbatim>\<open>"A \`a B"\<close> with two such
  texts is split in exactly \<open>A\<close> and \<open>B\<close>.\<close>

lemma starts_with_append: "starts_with sep (sep @ b)"
  by (induction sep) auto

lemma py_in_middle: "py_in sep (a @ sep @ b)"
proof (induction a)
  case Nil
  show ?case using starts_with_append [of sep b] by (cases "sep @ b") (auto simp: neq_Nil_conv)
next
  case (Cons x xs)
  then show ?case by simp
qed

lemma split_acc_no_grave:
  "224 \<notin> set b \<Longrightarrow> split_acc a_grave acc b = [rev acc @ b]"
proof (induction b arbitrary: acc)
  case Nil
  show ?case by simp
next
  case (Cons x xs)
  have n: "\<not> starts_with a_grave (x # xs)"
    using Cons.prems by (cases xs) (auto simp: a_grave_def)
  show ?case using Cons.IH [of "x # acc"] Cons.prems n by simp
qed

lemma split_acc_at_grave:
  "224 \<notin> set a \<Longrightarrow>
   split_acc a_grave acc (a @ a_grave @ b) = (rev acc @ a) # split_acc a_grave [] b"
proof (induction a arbitrary: acc)
  case Nil
  have "starts_with a_grave (a_grave @ b)" by (rule starts_with_append)
  then show ?case by (simp add: a_grave_def)
next
  case (Cons x xs)
  have n: "\<not> starts_with a_grave (x # xs @ a_grave @ b)"
    using Cons.prems by (cases xs) (auto simp: a_grave_def)
  show ?case using Cons.IH [of "x # acc"] Cons.prems n by simp
qed

lemma py_split_grave:
  "224 \<notin> set a \<Longrightarrow> 224 \<notin> set b \<Longrightarrow> py_split a_grave (a @ a_grave @ b) = [a, b]"
  by (simp add: py_split_def split_acc_at_grave split_acc_no_grave)

lemma in_dropWhile: "c \<in> set xs \<Longrightarrow> \<not> P c \<Longrightarrow> c \<in> set (dropWhile P xs)"
  by (induction xs) auto

lemma in_strip: "c \<in> set s \<Longrightarrow> \<not> isspace c \<Longrightarrow> c \<in> set (strip s)"
  unfolding strip_def by (simp add: in_dropWhile)

lemma int_digits_chars:
  "int_digits U acc s = Some n \<Longrightarrow> c \<in> set s \<Longrightarrow> c = 95 \<or> decimal_value U c \<noteq> None"
  by (induction U acc s rule: int_digits.induct) (auto split: option.splits if_splits)

lemma int_unsigned_chars:
  "int_unsigned U s = Some n \<Longrightarrow> c \<in> set s \<Longrightarrow> c = 95 \<or> decimal_value U c \<noteq> None"
  unfolding int_unsigned_def
  by (cases s) (auto dest: int_digits_chars split: option.splits)

lemma py_int_chars:
  assumes "py_int U s = Some i" "c \<in> set s"
  shows "isspace c \<or> c = 43 \<or> c = 45 \<or> c = 95 \<or> decimal_value U c \<noteq> None"
proof (cases "isspace c")
  case True
  then show ?thesis by simp
next
  case False
  then have m: "c \<in> set (strip s)" using assms(2) by (rule in_strip [rotated])
  then obtain x xs where s: "strip s = x # xs" by (cases "strip s") auto
  show ?thesis
  proof (cases "x = 43 \<or> x = 45")
    case True
    then obtain n where "int_unsigned U xs = Some n"
      using assms(1) s by (auto simp: py_int_def split: if_splits)
    then have "c \<in> set xs \<Longrightarrow> c = 95 \<or> decimal_value U c \<noteq> None"
      by (rule int_unsigned_chars)
    then show ?thesis using m s True by auto
  next
    case False
    then obtain n where "int_unsigned U (x # xs) = Some n"
      using assms(1) s by (auto simp: py_int_def split: if_splits)
    then have "c = 95 \<or> decimal_value U c \<noteq> None"
      using m s by (intro int_unsigned_chars [of U "x # xs" n c]) simp_all
    then show ?thesis by simp
  qed
qed

lemma py_int_no_grave:
  assumes "py_int U (strip a) = Some i"
  shows "224 \<notin> set a"
proof
  assume "224 \<in> set a"
  moreover have ns: "\<not> isspace 224" by (simp add: isspace_def)
  ultimately have "224 \<in> set (strip a)" by (rule in_strip)
  then have "isspace 224 \<or> (224::nat) = 43 \<or> (224::nat) = 45 \<or> (224::nat) = 95 \<or> decimal_value U 224 \<noteq> None"
    by (rule py_int_chars [OF assms])
  then show False using ns by (simp add: decimal_value_def)
qed

lemma volume_part_of_range:
  assumes "py_int U (strip a) = Some i" "py_int U (strip b) = Some j"
  shows "volume_part_of U (a @ a_grave @ b) = map py_str [i..j]"
proof -
  have s: "py_split a_grave (a @ a_grave @ b) = [a, b]"
    using assms by (intro py_split_grave py_int_no_grave)
  show ?thesis unfolding volume_part_of_def s using assms by (simp add: py_in_middle)
qed

lemma data_rows_from:
  "im \<in> set (data_rows U p rows) \<Longrightarrow> \<exists>row\<in>set rows. im = immeuble_of U p row"
  by (induction rows) (auto split: if_splits)

lemma table_rows_from:
  "im \<in> set (table_rows U p rows) \<Longrightarrow> \<exists>row\<in>set rows. im = immeuble_of U p row"
  by (induction rows) (auto dest: data_rows_from split: if_splits)

text \<open>
  C8 (as amended). Every property read from the table is made of one row of it. The lot
  cell and the volume cell of a row, once trimmed, become lists when they contain a line
  break: the lot cell the list of its non-empty trimmed lines, the volume cell the same
  list in which every line is replaced by its expansion; a cell without a line break
  stays a string. The expansion of a line \<^verbatim>\<open>"A \`a B"\<close>, where \<open>A\<close> and \<open>B\<close> are read as the
  integers \<open>i\<close> and \<open>j\<close>, is the numbers from \<open>i\<close> to \<open>j\<close> inclusive; a line without
  \<^verbatim>\<open>" \`a "\<close> is kept.
\<close>

theorem line_breaks_make_lists_and_ranges_expand:
  "(\<forall>im\<in>set (extract_tableau_derniere_page U p tables).
      \<exists>t\<in>set tables. \<exists>row\<in>set t. im = immeuble_of U p row) \<and>
   lot (immeuble_of U p row) =
     (if py_in [10] (cell_at row 4) then Liste (lignes_non_vides (cell_at row 4))
      else Scalaire (cell_at row 4)) \<and>
   volume (immeuble_of U p row) =
     (if py_in [10] (cell_at row 3)
      then Liste (concat (map (volume_part_of U) (lignes_non_vides (cell_at row 3))))
      else Scalaire (cell_at row 3)) \<and>
   (\<forall>a b i j. py_int U (strip a) = Some i \<and> py_int U (strip b) = Some j \<longrightarrow>
      volume_part_of U (a @ a_grave @ b) = map py_str [i..j]) \<and>
   (\<not> py_in a_grave v \<longrightarrow> volume_part_of U v = [v])"
proof (intro conjI ballI allI impI)
  fix im assume "im \<in> set (extract_tableau_derniere_page U p tables)"
  then obtain t where t: "t \<in> set tables" "im \<in> set (table_rows U p t)"
    by (auto simp: extract_tableau_derniere_page_def)
  then show "\<exists>t\<in>set tables. \<exists>row\<in>set t. im = immeuble_of U p row"
    using table_rows_from by blast
next
  show "lot (immeuble_of U p row) =
     (if py_in [10] (cell_at row 4) then Liste (lignes_non_vides (cell_at row 4))
      else Scalaire (cell_at row 4))"
    by (cases "cell_at row 4") (simp_all add: immeuble_of_def lot_of_def)
next
  show "volume (immeuble_of U p row) =
     (if py_in [10] (cell_at row 3)
      then Liste (concat (map (volume_part_of U) (lignes_non_vides (cell_at row 3))))
      else Scalaire (cell_at row 3))"
    by (cases "cell_at row 3") (simp_all add: immeuble_of_def volume_of_def)
next
  fix a b i j
  assume "py_int U (strip a) = Some i \<and> py_int U (strip b) = Some j"
  then show "volume_part_of U (a @ a_grave @ b) = map py_str [i..j]"
    by (intro volume_part_of_range) simp_all
next
  assume "\<not> py_in a_grave v"
  then show "volume_part_of U v = [v]" by (simp add: volume_part_of_def)
qed

text \<open>A range in a volume cell of one line is not expanded: the cell stays the string it
  was.\<close>

lemmas table_defs = extract_tableau_derniere_page_def immeuble_of_def cell_at_def truthy_def
  row_text_def est_entete_def lignes_non_vides_def a_grave_def volume_part_of_def lot_of_def
  volume_of_def py_int_def int_unsigned_def py_str_def

theorem range_on_one_line_is_kept:
  "extract_tableau_derniere_page latin1_db 9
     [[[Some (ascii ''Code''), Some (ascii ''Commune''), Some (ascii ''Designation''),
        Some (ascii ''Volume''), Some (ascii ''Lot'')],
       [Some (ascii ''75''), Some (ascii ''PARIS''), Some (ascii ''CJ 42''),
        Some (ascii ''71 '' @ [224] @ ascii '' 73''), Some (ascii ''9'')]]] =
   [\<lparr>code = ascii ''75'', commune = ascii ''PARIS'', designation_cadastrale = ascii ''CJ 42'',
     volume = Scalaire (ascii ''71 '' @ [224] @ ascii '' 73''), lot = Scalaire (ascii ''9''),
     page = 9\<rparr>]"
  by (simp add: table_defs text_defs)


text \<open>A row whose volume cell has two lines, the second a range, and whose lot cell has
  two lines.\<close>

theorem line_breaks_make_lists_and_ranges_expand_witness:
  "volume (immeuble_of latin1_db 9
     [Some (ascii ''75''), Some (ascii ''PARIS''), Some (ascii ''CJ 42''),
      Some (ascii ''57'' @ [10] @ ascii ''71 '' @ [224] @ ascii '' 73''),
      Some (ascii ''9'' @ [10] @ ascii ''17'')]) =
     Liste [ascii ''57'', ascii ''71'', ascii ''72'', ascii ''73''] \<and>
   lot (immeuble_of latin1_db 9
     [Some (ascii ''75''), Some (ascii ''PARIS''), Some (ascii ''CJ 42''),
      Some (ascii ''57'' @ [10] @ ascii ''71 '' @ [224] @ ascii '' 73''),
      Some (ascii ''9'' @ [10] @ ascii ''17'')]) =
     Liste [ascii ''9'', ascii ''17''] \<and>
   volume_part_of latin1_db (ascii ''71'' @ a_grave @ ascii ''73'') =
     [ascii ''71'', ascii ''72'', ascii ''73'']"
proof -
  define row where "row =
     [Some (ascii ''75''), Some (ascii ''PARIS''), Some (ascii ''CJ 42''),
      Some (ascii ''57'' @ [10] @ ascii ''71 '' @ [224] @ ascii '' 73''),
      Some (ascii ''9'' @ [10] @ ascii ''17'')]"
  note t = line_breaks_make_lists_and_ranges_expand [where U = latin1_db and p = 9 and row = row]
  have c3: "cell_at row 3 = ascii ''57'' @ [10] @ ascii ''71 '' @ [224] @ ascii '' 73''"
    by (simp add: row_def cell_at_def text_defs)
  have c4: "cell_at row 4 = ascii ''9'' @ [10] @ ascii ''17''"
    by (simp add: row_def cell_at_def text_defs)
  have n3: "py_in [10] (cell_at row 3)" unfolding c3 by (simp add: text_defs)
  have n4: "py_in [10] (cell_at row 4)" unfolding c4 by (simp add: text_defs)
  have v: "volume (immeuble_of latin1_db 9 row) =
      Liste (concat (map (volume_part_of latin1_db) (lignes_non_vides (cell_at row 3))))"
    using t n3 by simp
  have l: "lot (immeuble_of latin1_db 9 row) = Liste (lignes_non_vides (cell_at row 4))"
    using t n4 by simp
  have i: "py_int latin1_db (strip (ascii ''71'')) = Some 71"
    by (simp add: py_int_def int_unsigned_def text_defs)
  have j: "py_int latin1_db (strip (ascii ''73'')) = Some 73"
    by (simp add: py_int_def int_unsigned_def text_defs)
  have r: "volume_part_of latin1_db (ascii ''71'' @ a_grave @ ascii ''73'') = map py_str [71..73]"
    using t i j by blast
  have v': "concat (map (volume_part_of latin1_db) (lignes_non_vides (cell_at row 3))) =
      [ascii ''57'', ascii ''71'', ascii ''72'', ascii ''73'']"
    unfolding c3 by (simp add: table_defs text_defs)
  have l': "lignes_non_vides (cell_at row 4) = [ascii ''9'', ascii ''17'']"
    unfolding c4 by (simp add: table_defs text_defs)
  have r': "map py_str [71..73] = [ascii ''71'', ascii ''72'', ascii ''73'']"
    by (simp add: py_str_def ascii_def)
  show ?thesis unfolding row_def [symmetric] v l r v' l' r' by simp
qed

end
